theory Spec2Isabelle
  imports Complex_Main "HOL-Library.AList"
begin

section \<open>Bulk spreadsheet ingestion and batch document assembly\<close>

text \<open>
  A shallow embedding of \<^verbatim>\<open>services/excel_processor.py\<close>: the class
  \<^verbatim>\<open>ExcelProcessor\<close> (\<^verbatim>\<open>parse_excel_file\<close>, \<^verbatim>\<open>_build_column_map\<close>,
  \<^verbatim>\<open>_parse_row\<close>, \<^verbatim>\<open>match_events\<close>, \<^verbatim>\<open>generate_batch_documents\<close>) and
  \<^verbatim>\<open>generate_validation_report\<close>.

  Python method names that start with an underscore lose it (\<open>build_column_map\<close>,
  \<open>parse_row\<close>). Mutation of a row is explicit: a function that changes a row returns
  the changed row. Every \<^verbatim>\<open>raise\<close> is a value \<open>Inl message\<close> of a sum type, where
  the message is what \<^verbatim>\<open>str(e)\<close> gives in the handler.
\<close>

subsection \<open>Python values\<close>

text \<open>
  The values a spreadsheet cell or a row attribute can hold. As a cell, \<open>PNone\<close> stands
  for every value on which \<^verbatim>\<open>pd.isna\<close> is true (None, NaN, NaT). A finite float is
  its rational value. A cell of any other type (a timestamp, a numpy integer) enters the
  code only through \<^verbatim>\<open>str(val)\<close> and is the \<open>PStr\<close> of that text.
\<close>

datatype pyval = PNone | PStr string | PInt int | PFloat rat | PBool bool

text \<open>Truthiness, as \<^verbatim>\<open>not x\<close> and \<^verbatim>\<open>x or y\<close> use it.\<close>

fun truthy :: "pyval \<Rightarrow> bool" where
  "truthy PNone = False"
| "truthy (PStr s) = (s \<noteq> [])"
| "truthy (PInt i) = (i \<noteq> 0)"
| "truthy (PFloat f) = (f \<noteq> 0)"
| "truthy (PBool b) = b"

definition py_or :: "pyval \<Rightarrow> pyval \<Rightarrow> pyval" where
  "py_or x y = (if truthy x then x else y)"

fun digits :: "nat \<Rightarrow> string" where
  "digits n = (if n < 10 then [''0123456789'' ! n]
               else digits (n div 10) @ [''0123456789'' ! (n mod 10)])"

declare digits.simps [simp del]

definition str_int :: "int \<Rightarrow> string" where
  "str_int i = (if i < 0 then CHR ''-'' # digits (nat (- i)) else digits (nat i))"

text \<open>
  \<^verbatim>\<open>str(x)\<close>. The rendering of a float is the parameter \<open>float_str\<close>: the code
  never inspects it.
\<close>

fun py_str :: "(rat \<Rightarrow> string) \<Rightarrow> pyval \<Rightarrow> string" where
  "py_str float_str PNone = ''None''"
| "py_str float_str (PStr s) = s"
| "py_str float_str (PInt i) = str_int i"
| "py_str float_str (PFloat f) = float_str f"
| "py_str float_str (PBool b) = (if b then ''True'' else ''False'')"

subsection \<open>Strings\<close>

text \<open>
  A Python string is modelled by its UTF-8 bytes, one \<open>char\<close> per byte. What Python
  counts or tests per character (code point) is done on the encoded characters, which
  \<open>chars_of\<close> splits off: the first byte of an encoded character gives its length.
\<close>

fun utf8_length :: "char \<Rightarrow> nat" where
  "utf8_length (Char b0 b1 b2 b3 b4 b5 b6 b7) =
     (if \<not> b7 then 1 else if \<not> b6 then 1 else if \<not> b5 then 2 else if \<not> b4 then 3 else 4)"

function chars_of :: "string \<Rightarrow> string list" where
  "chars_of [] = []"
| "chars_of (c # s) = (c # take (utf8_length c - 1) s) # chars_of (drop (utf8_length c - 1) s)"
  by pat_completeness auto
termination
  by (relation "measure length") auto

text \<open>\<^verbatim>\<open>s[:n]\<close>: the first \<open>n\<close> characters.\<close>

definition slice_to :: "nat \<Rightarrow> string \<Rightarrow> string" where
  "slice_to n s = concat (take n (chars_of s))"

text \<open>
  \<^verbatim>\<open>str.lower\<close> is modelled on the ASCII letters: the bytes of the other characters
  stay as they are. The accepted header variants are ASCII, and the only non-ASCII
  character whose lower case is ASCII (the Kelvin sign) gives a letter that no variant
  contains, so a header matches a variant in the model exactly when it does in Python.
\<close>

definition lower_char :: "char \<Rightarrow> char" where
  "lower_char c =
     (case map_of (zip ''ABCDEFGHIJKLMNOPQRSTUVWXYZ'' ''abcdefghijklmnopqrstuvwxyz'') c of
        Some l \<Rightarrow> l
      | None \<Rightarrow> c)"

definition lower :: "string \<Rightarrow> string" where
  "lower s = map lower_char s"

text \<open>
  The characters on which \<^verbatim>\<open>str.isspace\<close> is true, each as its UTF-8 bytes: U+0009
  to U+000D, U+001C to U+001F, U+0020, U+0085, U+00A0, U+1680, U+2000 to U+200A, U+2028,
  U+2029, U+202F, U+205F and U+3000. \<^verbatim>\<open>str.strip()\<close> removes them from both ends.
\<close>

definition whitespace :: "string list" where
  "whitespace =
     [[CHR 0x09], [CHR 0x0A], [CHR 0x0B], [CHR 0x0C], [CHR 0x0D],
      [CHR 0x1C], [CHR 0x1D], [CHR 0x1E], [CHR 0x1F], [CHR 0x20],
      [CHR 0xC2, CHR 0x85], [CHR 0xC2, CHR 0xA0], [CHR 0xE1, CHR 0x9A, CHR 0x80],
      [CHR 0xE2, CHR 0x80, CHR 0x80], [CHR 0xE2, CHR 0x80, CHR 0x81], [CHR 0xE2, CHR 0x80, CHR 0x82],
      [CHR 0xE2, CHR 0x80, CHR 0x83], [CHR 0xE2, CHR 0x80, CHR 0x84], [CHR 0xE2, CHR 0x80, CHR 0x85],
      [CHR 0xE2, CHR 0x80, CHR 0x86], [CHR 0xE2, CHR 0x80, CHR 0x87], [CHR 0xE2, CHR 0x80, CHR 0x88],
      [CHR 0xE2, CHR 0x80, CHR 0x89], [CHR 0xE2, CHR 0x80, CHR 0x8A],
      [CHR 0xE2, CHR 0x80, CHR 0xA8], [CHR 0xE2, CHR 0x80, CHR 0xA9], [CHR 0xE2, CHR 0x80, CHR 0xAF],
      [CHR 0xE2, CHR 0x81, CHR 0x9F], [CHR 0xE3, CHR 0x80, CHR 0x80]]"

definition is_space :: "string \<Rightarrow> bool" where
  "is_space ch = (ch \<in> set whitespace)"

definition strip :: "string \<Rightarrow> string" where
  "strip s = concat (rev (dropWhile is_space (rev (dropWhile is_space (chars_of s)))))"

text \<open>\<^verbatim>\<open>sep.join(xs)\<close>.\<close>

fun join :: "string \<Rightarrow> string list \<Rightarrow> string" where
  "join sep [] = []"
| "join sep [x] = x"
| "join sep (x # y # ys) = x @ sep @ join sep (y # ys)"

text \<open>\<^verbatim>\<open>s.replace(old, new)\<close> for a one-character \<^verbatim>\<open>old\<close>.\<close>

definition replace :: "char \<Rightarrow> char \<Rightarrow> string \<Rightarrow> string" where
  "replace old new s = map (\<lambda>c. if c = old then new else c) s"

subsection \<open>Schema resolution\<close>

text \<open>
  \<^verbatim>\<open>ExcelProcessor.COLUMN_MAPPINGS\<close>, a dict literal: its items in source order.
\<close>

definition COLUMN_MAPPINGS :: "(string \<times> string list) list" where
  "COLUMN_MAPPINGS =
     [(''exhibitor_invite'', [''exhibitor invite'', ''company'', ''company name'', ''exhibitor'']),
      (''event_name'', [''event name'', ''event'', ''meeting name'', ''meeting'']),
      (''total'', [''total'', ''amount'', ''total amount'', ''price'']),
      (''expected_attendance'', [''expected attendance'', ''attendance'', ''attendees'']),
      (''date'', [''date'', ''meeting date'', ''event date'']),
      (''city'', [''city'', ''location'']),
      (''venue'', [''venue'', ''location'']),
      (''official_address'', [''official address'', ''address'', ''company address'']),
      (''amount'', [''amount'', ''booth amount'']),
      (''discount'', [''discount''])]"

text \<open>
  The inner loop of \<^verbatim>\<open>_build_column_map\<close>:
  \<^verbatim>\<open>for col in columns: if col in variations: column_map[field] = col; break\<close>.
\<close>

fun first_match :: "string list \<Rightarrow> string list \<Rightarrow> string option" where
  "first_match variations [] = None"
| "first_match variations (col # columns) =
     (if col \<in> set variations then Some col else first_match variations columns)"

text \<open>
  A dict is an association list in insertion order; \<open>AList.update\<close> is
  \<^verbatim>\<open>d[k] = v\<close> and \<open>map_of\<close> is \<^verbatim>\<open>d.get(k)\<close>.
\<close>

definition build_column_map_from ::
  "(string \<times> string list) list \<Rightarrow> string list \<Rightarrow> (string \<times> string) list" where
  "build_column_map_from mappings columns =
     foldl (\<lambda>column_map (field, variations).
              case first_match variations columns of
                None \<Rightarrow> column_map
              | Some col \<Rightarrow> AList.update field col column_map)
           [] mappings"

definition build_column_map :: "string list \<Rightarrow> (string \<times> string) list" where
  "build_column_map columns = build_column_map_from COLUMN_MAPPINGS columns"

text \<open>
  Every (field, variant) pair of the synonym table, flattened; used to find the variants
  that are listed under more than one field.
\<close>

definition variant_pairs :: "(string \<times> string) list" where
  "variant_pairs =
     concat (map (\<lambda>(field, variations). map (Pair field) variations) COLUMN_MAPPINGS)"



subsection \<open>Rows\<close>

text \<open>
  Modelled from the spec: \<^verbatim>\<open>core.models.ExcelRow\<close> is not in the sources. The fields
  are the keyword arguments \<^verbatim>\<open>_parse_row\<close> passes and the attributes the processor
  reads; \<open>errors\<close> is the spec's ordered, append-only list of strings, \<open>has_errors\<close> is
  "the row has any entry in errors" and \<open>add_error\<close> appends one. The field
  \<^verbatim>\<open>total\<close> is \<open>total_field\<close> here. \<open>matched_event\<close> is None or a dict.
\<close>

record excel_row =
  exhibitor_invite :: pyval
  event_name :: pyval
  total_field :: string
  company_name :: pyval
  expected_attendance :: pyval
  date :: pyval
  city :: pyval
  venue :: pyval
  official_address :: pyval
  amount :: pyval
  discount :: pyval
  row_number :: int
  errors :: "string list"
  matched_event :: "(string \<times> pyval) list option"

text \<open>
  Modelled from the spec: the methods \<^verbatim>\<open>has_errors\<close> and \<^verbatim>\<open>add_error\<close> of
  \<^verbatim>\<open>ExcelRow\<close>, which are not in the sources: "this row is clean" is the pure
  predicate on the errors list, and an error is appended to it.
\<close>

definition has_errors :: "excel_row \<Rightarrow> bool" where
  "has_errors row = (errors row \<noteq> [])"

definition add_error :: "string \<Rightarrow> excel_row \<Rightarrow> excel_row" where
  "add_error msg row = row\<lparr>errors := errors row @ [msg]\<rparr>"

subsection \<open>Row normalization\<close>

text \<open>
  A raw record is a pandas Series: index labels with their cells, in column order. After
  the headers have been lower-cased and stripped two columns can carry the same label.
  \<^verbatim>\<open>row.get(col)\<close> is None for an absent label, the cell for a label that occurs once
  and a Series of the cells for a repeated label; \<^verbatim>\<open>if pd.isna(val)\<close> on a Series
  raises ValueError.
\<close>

type_synonym series = "(string \<times> pyval) list"

definition row_get :: "series \<Rightarrow> string \<Rightarrow> pyval list" where
  "row_get row col = map snd (filter (\<lambda>(label, cell). label = col) row)"

definition ambiguous_truth :: string where
  "ambiguous_truth =
     ''The truth value of a Series is ambiguous. Use a.empty, a.bool(), a.item(), a.any() or a.all().''"

text \<open>The nested function \<^verbatim>\<open>get_value(field, default)\<close> of \<^verbatim>\<open>_parse_row\<close>.\<close>

definition get_value ::
  "series \<Rightarrow> (string \<times> string) list \<Rightarrow> string \<Rightarrow> pyval \<Rightarrow> string + pyval" where
  "get_value row column_map field dflt =
     (case map_of column_map field of
        None \<Rightarrow> Inr dflt
      | Some col \<Rightarrow>
          (case row_get row col of
             [] \<Rightarrow> Inr dflt
           | [val] \<Rightarrow>
               (case val of
                  PNone \<Rightarrow> Inr dflt
                | PStr s \<Rightarrow> Inr (PStr (strip s))
                | _ \<Rightarrow> Inr val)
           | _ \<Rightarrow> Inl ambiguous_truth))"

text \<open>Sequencing of steps that can raise: the first exception ends the block.\<close>

definition try_bind :: "string + 'a \<Rightarrow> ('a \<Rightarrow> string + 'b) \<Rightarrow> string + 'b" where
  "try_bind m f = (case m of Inl e \<Rightarrow> Inl e | Inr x \<Rightarrow> f x)"

text \<open>
  \<^verbatim>\<open>ExcelProcessor._parse_row\<close>. The three validations are separate \<^verbatim>\<open>if\<close>
  statements, each appending to the row's errors.
\<close>

definition parse_row ::
  "(rat \<Rightarrow> string) \<Rightarrow> series \<Rightarrow> (string \<times> string) list \<Rightarrow> int \<Rightarrow> string + excel_row" where
  "parse_row fstr row column_map rownum =
     try_bind (get_value row column_map ''exhibitor_invite'' (PStr [])) (\<lambda>exhibitor.
     try_bind (get_value row column_map ''event_name'' (PStr [])) (\<lambda>event.
     try_bind (get_value row column_map ''total'' (PStr ''0'')) (\<lambda>total.
     try_bind (get_value row column_map ''exhibitor_invite'' PNone) (\<lambda>v_company_name.
     try_bind (get_value row column_map ''expected_attendance'' PNone) (\<lambda>v_expected_attendance.
     try_bind (get_value row column_map ''date'' PNone) (\<lambda>v_date.
     try_bind (get_value row column_map ''city'' PNone) (\<lambda>v_city.
     try_bind (get_value row column_map ''venue'' PNone) (\<lambda>v_venue.
     try_bind (get_value row column_map ''official_address'' PNone) (\<lambda>v_official_address.
     try_bind (get_value row column_map ''amount'' PNone) (\<lambda>v_amount.
     try_bind (get_value row column_map ''discount'' PNone) (\<lambda>v_discount.
       let excel_row =
             \<lparr>exhibitor_invite = exhibitor,
              event_name = event,
              total_field = py_str fstr total,
              company_name = v_company_name,
              expected_attendance = v_expected_attendance,
              date = v_date,
              city = v_city,
              venue = v_venue,
              official_address = v_official_address,
              amount = v_amount,
              discount = v_discount,
              row_number = rownum,
              errors = [],
              matched_event = None\<rparr>;
           excel_row = (if \<not> truthy exhibitor
                        then add_error ''Missing company name'' excel_row else excel_row);
           excel_row = (if \<not> truthy event
                        then add_error ''Missing event name'' excel_row else excel_row);
           excel_row = (if \<not> truthy total \<or> total = PStr ''0''
                        then add_error ''Missing or invalid total'' excel_row else excel_row)
       in Inr excel_row)))))))))))"

subsection \<open>Ingestion\<close>

text \<open>
  The table \<^verbatim>\<open>pd.read_excel\<close> returns: the header cells, which are strings, and the
  data rows, each a list of cells in column order. The argument of \<open>parse_excel_file\<close>
  is what \<^verbatim>\<open>pd.read_excel(file_obj)\<close> does on the file: \<open>Inl e\<close> when it raises an
  exception whose text is \<open>e\<close>, \<open>Inr df\<close> when it returns the table \<open>df\<close>.
\<close>

record dataframe =
  df_columns :: "string list"
  df_rows :: "pyval list list"

text \<open>
  The loop \<^verbatim>\<open>for idx, row in df.iterrows()\<close> with its inner try/except; \<open>idx\<close>
  counts from 0.
\<close>

fun parse_rows ::
  "(rat \<Rightarrow> string) \<Rightarrow> string list \<Rightarrow> (string \<times> string) list \<Rightarrow> int \<Rightarrow> pyval list list \<Rightarrow>
   excel_row list \<times> string list \<Rightarrow> excel_row list \<times> string list" where
  "parse_rows fstr cols column_map idx [] (rows, errs) = (rows, errs)"
| "parse_rows fstr cols column_map idx (cells # rest) (rows, errs) =
     (case parse_row fstr (zip cols cells) column_map (idx + 2) of
        Inr excel_row \<Rightarrow>
          parse_rows fstr cols column_map (idx + 1) rest (rows @ [excel_row], errs)
      | Inl e \<Rightarrow>
          parse_rows fstr cols column_map (idx + 1) rest
            (rows, errs @ [''Row '' @ str_int (idx + 2) @ '': '' @ e]))"

definition required :: "string list" where
  "required = [''exhibitor_invite'', ''event_name'', ''total'']"

text \<open>
  \<^verbatim>\<open>df.columns.str.lower().str.strip()\<close>. The \<^verbatim>\<open>.str\<close> accessor of pandas
  accepts an index of strings and raises AttributeError on the index of a table without
  columns, which is not an index of strings; the exception is caught by the outer
  \<^verbatim>\<open>except\<close> of \<^verbatim>\<open>parse_excel_file\<close>.
\<close>

definition str_accessor_error :: string where
  "str_accessor_error = ''Can only use .str accessor with string values!''"

definition normalize_columns :: "string list \<Rightarrow> string + string list" where
  "normalize_columns labels =
     (if labels = [] then Inl str_accessor_error
      else Inr (map (\<lambda>c. strip (lower c)) labels))"

definition parse_excel_file ::
  "(rat \<Rightarrow> string) \<Rightarrow> string + dataframe \<Rightarrow> excel_row list \<times> string list" where
  "parse_excel_file fstr file_obj =
     (case file_obj of
        Inl e \<Rightarrow> ([], [''Failed to read Excel file: '' @ e])
      | Inr df \<Rightarrow>
          (case normalize_columns (df_columns df) of
             Inl e \<Rightarrow> ([], [''Failed to read Excel file: '' @ e])
           | Inr cols \<Rightarrow>
               (let column_map = build_column_map cols;
                    missing = filter (\<lambda>col. map_of column_map col = None) required
                in if missing \<noteq> []
                   then ([], [''Missing required columns: '' @ join '', '' missing])
                   else parse_rows fstr cols column_map 0 (df_rows df) ([], []))))"

subsection \<open>Collaborators\<close>

text \<open>
  Modelled from the spec: \<^verbatim>\<open>config.events.Event\<close> is not in the sources. It is the
  spec's CanonicalEvent (name, date text, venue, city/state, year); \<^verbatim>\<open>get_year()\<close>
  reads \<open>ev_year\<close>.
\<close>

record event =
  ev_meeting_name :: string
  ev_meeting_date_long :: string
  ev_venue :: string
  ev_city_state :: string
  ev_year :: int

text \<open>An entry of the signatory roster: a display name and a title.\<close>

record signatory =
  sig_name :: string
  sig_title :: string

text \<open>
  The keyword arguments \<^verbatim>\<open>generate_batch_documents\<close> passes to
  \<^verbatim>\<open>DocumentPayload\<close>, in order.
\<close>

record document_payload =
  p_company_name :: pyval
  p_company_address :: pyval
  p_meeting_name :: pyval
  p_meeting_date_long :: pyval
  p_venue :: pyval
  p_city_state :: pyval
  p_final_total :: rat
  p_amount_currency :: string
  p_document_type :: string
  p_signature_person :: "string option"
  p_attendance_expected :: pyval
  p_audience_list :: "string list"
  p_event_year :: pyval

text \<open>
  The code the processor imports and that is not in the sources, taken as parameters.
  Each function that can raise returns \<open>Inl\<close> of the exception's text.
  \<^item> \<open>float_str\<close>: \<^verbatim>\<open>str\<close> of a float;
  \<^item> \<open>get_all_events\<close>, \<open>find_best_match\<close>: \<^verbatim>\<open>services.event_matcher\<close>;
  \<^item> \<open>AUTHORIZED_SIGNATORIES\<close>, \<open>DEFAULT_AUDIENCE\<close>: \<^verbatim>\<open>config.settings\<close>;
  \<^item> \<open>get_total_amount\<close>: the method of \<^verbatim>\<open>ExcelRow\<close>;
  \<^item> \<open>DocumentPayload\<close>: the constructor of \<^verbatim>\<open>core.models.DocumentPayload\<close>, which
    may reject its arguments;
  \<^item> \<open>generate_loa_documents\<close>, \<open>generate_lor_documents\<close>: the renderers, which
    return the bytes of the .docx and of the .pdf.
\<close>

record deps =
  float_str :: "rat \<Rightarrow> string"
  get_all_events :: "event list"
  find_best_match :: "pyval \<Rightarrow> event list \<Rightarrow> event option"
  AUTHORIZED_SIGNATORIES :: "(string \<times> signatory) list"
  DEFAULT_AUDIENCE :: "string list"
  get_total_amount :: "excel_row \<Rightarrow> string + rat"
  DocumentPayload :: "document_payload \<Rightarrow> string + document_payload"
  generate_loa_documents :: "document_payload \<Rightarrow> string \<Rightarrow> string + string \<times> string"
  generate_lor_documents :: "document_payload \<Rightarrow> string + string \<times> string"

subsection \<open>Event matching\<close>

text \<open>The body of the loop of \<^verbatim>\<open>ExcelProcessor.match_events\<close>, for one row.\<close>

definition match_row :: "deps \<Rightarrow> event list \<Rightarrow> excel_row \<Rightarrow> excel_row" where
  "match_row D all_events row =
     (if \<not> truthy (event_name row) then add_error ''No event name provided'' row
      else case find_best_match D (event_name row) all_events of
             Some matched \<Rightarrow>
               row\<lparr>matched_event :=
                     Some [(''meeting_name'', PStr (ev_meeting_name matched)),
                           (''meeting_date_long'', PStr (ev_meeting_date_long matched)),
                           (''venue'', PStr (ev_venue matched)),
                           (''city_state'', PStr (ev_city_state matched)),
                           (''event_year'', PInt (ev_year matched))]\<rparr>
           | None \<Rightarrow>
               add_error (''Could not match event: '' @ py_str (float_str D) (event_name row)) row)"

definition match_events :: "deps \<Rightarrow> excel_row list \<Rightarrow> excel_row list" where
  "match_events D rows = (let all_events = get_all_events D in map (match_row D all_events) rows)"

subsection \<open>Batch generation\<close>

text \<open>\<^verbatim>\<open>d[key]\<close> on a dict: KeyError, whose text is the quoted key, when absent.\<close>

definition quoted :: "string \<Rightarrow> string" where
  "quoted k = [CHR 0x27] @ k @ [CHR 0x27]"

definition dict_item :: "(string \<times> 'a) list \<Rightarrow> string \<Rightarrow> string + 'a" where
  "dict_item d k = (case map_of d k of None \<Rightarrow> Inl (quoted k) | Some v \<Rightarrow> Inr v)"

text \<open>The name Python prints for the type of a value in its error messages.\<close>

fun type_name :: "pyval \<Rightarrow> string" where
  "type_name PNone = ''NoneType''"
| "type_name (PStr s) = ''str''"
| "type_name (PInt i) = ''int''"
| "type_name (PFloat f) = ''float''"
| "type_name (PBool b) = ''bool''"

text \<open>\<^verbatim>\<open>if not row.matched_event\<close>: None and the empty dict are both falsy.\<close>

definition dict_truthy :: "(string \<times> pyval) list option \<Rightarrow> bool" where
  "dict_truthy d = (case d of None \<Rightarrow> False | Some items \<Rightarrow> items \<noteq> [])"

text \<open>
  The first statements of the try block: the signatory lookup (whose default argument
  \<^verbatim>\<open>AUTHORIZED_SIGNATORIES["sarah"]\<close> is evaluated first) and the arguments of
  \<^verbatim>\<open>DocumentPayload\<close>, evaluated in order.
\<close>

definition payload_args :: "deps \<Rightarrow> string \<Rightarrow> string \<Rightarrow> excel_row \<Rightarrow> string + document_payload" where
  "payload_args D document_type signatory_key row =
     try_bind (dict_item (AUTHORIZED_SIGNATORIES D) ''sarah'') (\<lambda>sarah.
       let signatory_info = (case map_of (AUTHORIZED_SIGNATORIES D) signatory_key of
                               Some info \<Rightarrow> info | None \<Rightarrow> sarah);
           signature_person = sig_name signatory_info @ '' - '' @ sig_title signatory_info;
           d = (case matched_event row of Some items \<Rightarrow> items | None \<Rightarrow> [])
       in
     try_bind (dict_item d ''meeting_name'') (\<lambda>v_meeting_name.
     try_bind (dict_item d ''meeting_date_long'') (\<lambda>v_meeting_date_long.
     try_bind (dict_item d ''venue'') (\<lambda>v_venue.
     try_bind (dict_item d ''city_state'') (\<lambda>v_city_state.
     try_bind (get_total_amount D row) (\<lambda>v_final_total.
       Inr \<lparr>p_company_name = py_or (company_name row) (exhibitor_invite row),
            p_company_address = py_or (official_address row) (PStr []),
            p_meeting_name = v_meeting_name,
            p_meeting_date_long = v_meeting_date_long,
            p_venue = v_venue,
            p_city_state = v_city_state,
            p_final_total = v_final_total,
            p_amount_currency = total_field row,
            p_document_type = document_type,
            p_signature_person = (if document_type = ''LOA'' then Some signature_person else None),
            p_attendance_expected = expected_attendance row,
            p_audience_list = DEFAULT_AUDIENCE D,
            p_event_year = (case map_of d ''event_year'' of Some y \<Rightarrow> y | None \<Rightarrow> PInt 2025)\<rparr>))))))"

text \<open>
  The archive names: \<^verbatim>\<open>company_slug\<close>, \<^verbatim>\<open>event_slug\<close> and \<^verbatim>\<open>base_name\<close>.
  \<^verbatim>\<open>.replace\<close> on a value that is not a string raises AttributeError, a slice of one
  raises TypeError.
\<close>

definition company_slug :: "excel_row \<Rightarrow> string + string" where
  "company_slug row =
     (case company_name row of
        PStr s \<Rightarrow> Inr (slice_to 50 (replace CHR ''/'' CHR ''_'' (replace CHR '' '' CHR ''_'' s)))
      | v \<Rightarrow> Inl (quoted (type_name v) @ '' object has no attribute '' @ quoted ''replace''))"

definition event_slug :: "excel_row \<Rightarrow> string + string" where
  "event_slug row =
     try_bind (dict_item (case matched_event row of Some items \<Rightarrow> items | None \<Rightarrow> []) ''meeting_name'')
       (\<lambda>v. case v of
              PStr s \<Rightarrow> Inr (replace CHR ''/'' CHR ''_'' (replace CHR '' '' CHR ''_'' (slice_to 30 s)))
            | _ \<Rightarrow> Inl (quoted (type_name v) @ '' object is not subscriptable''))"

definition base_name :: "string \<Rightarrow> excel_row \<Rightarrow> string + string" where
  "base_name document_type row =
     try_bind (company_slug row) (\<lambda>c.
     try_bind (event_slug row) (\<lambda>e.
       Inr (document_type @ ''_'' @ c @ ''_'' @ e)))"

text \<open>The calls made to the collaborators, recorded in order.\<close>

datatype collab_call =
    Call_DocumentPayload document_payload
  | Call_generate_loa_documents document_payload string
  | Call_generate_lor_documents document_payload

text \<open>
  The try block of \<^verbatim>\<open>generate_batch_documents\<close> for one row: the calls it made and
  either the text of the exception that ended it or the two archive entries it wrote
  (name and bytes).
\<close>

definition generate_row ::
  "deps \<Rightarrow> string \<Rightarrow> string \<Rightarrow> excel_row \<Rightarrow> collab_call list \<times> (string + (string \<times> string) list)" where
  "generate_row D document_type signatory_key row =
     (case payload_args D document_type signatory_key row of
        Inl e \<Rightarrow> ([], Inl e)
      | Inr args \<Rightarrow>
          (case DocumentPayload D args of
             Inl e \<Rightarrow> ([Call_DocumentPayload args], Inl e)
           | Inr payload \<Rightarrow>
               (let render_call = (if document_type = ''LOA''
                                   then Call_generate_loa_documents payload signatory_key
                                   else Call_generate_lor_documents payload);
                    calls = [Call_DocumentPayload args, render_call]
                in case (if document_type = ''LOA''
                         then generate_loa_documents D payload signatory_key
                         else generate_lor_documents D payload) of
                     Inl e \<Rightarrow> (calls, Inl e)
                   | Inr (docx, pdf) \<Rightarrow>
                       (case base_name document_type row of
                          Inl e \<Rightarrow> (calls, Inl e)
                        | Inr name \<Rightarrow> (calls, Inr [(name @ ''.docx'', docx), (name @ ''.pdf'', pdf)])))))"

text \<open>
  The state of the loop of \<^verbatim>\<open>generate_batch_documents\<close>: the entries of the archive
  in the order written, the two counters, the rows as the loop leaves them, and the
  calls made to the collaborators.
\<close>

record batch =
  zip_entries :: "(string \<times> string) list"
  success_count :: nat
  error_count :: nat
  rows_after :: "excel_row list"
  calls :: "collab_call list"

definition batch_row :: "deps \<Rightarrow> string \<Rightarrow> string \<Rightarrow> batch \<Rightarrow> excel_row \<Rightarrow> batch" where
  "batch_row D document_type signatory_key st row =
     (if has_errors row
      then st\<lparr>error_count := error_count st + 1, rows_after := rows_after st @ [row]\<rparr>
      else if \<not> dict_truthy (matched_event row)
      then st\<lparr>error_count := error_count st + 1, rows_after := rows_after st @ [row]\<rparr>
      else case generate_row D document_type signatory_key row of
             (cs, Inr entries) \<Rightarrow>
               st\<lparr>zip_entries := zip_entries st @ entries,
                  success_count := success_count st + 1,
                  rows_after := rows_after st @ [row],
                  calls := calls st @ cs\<rparr>
           | (cs, Inl e) \<Rightarrow>
               st\<lparr>error_count := error_count st + 1,
                  rows_after := rows_after st @ [add_error (''Generation failed: '' @ e) row],
                  calls := calls st @ cs\<rparr>)"

definition generate_batch_documents :: "deps \<Rightarrow> excel_row list \<Rightarrow> string \<Rightarrow> string \<Rightarrow> batch" where
  "generate_batch_documents D rows document_type signatory_key =
     foldl (batch_row D document_type signatory_key)
       \<lparr>zip_entries = [], success_count = 0, error_count = 0, rows_after = [], calls = []\<rparr> rows"

subsection \<open>Validation report\<close>

text \<open>The arrow of the valid-row lines, as the bytes of the source file have it.\<close>

definition arrow :: string where
  "arrow = [CHR 0xC3, CHR 0xA2, CHR 0xE2, CHR 0x80, CHR 0xA0, CHR 0xE2, CHR 0x80, CHR 0x99]"

definition newline :: string where
  "newline = [CHR 0x0A]"

text \<open>The lines appended for one row with errors: its heading, its errors, an empty line.\<close>

definition error_row_heading :: "(rat \<Rightarrow> string) \<Rightarrow> excel_row \<Rightarrow> string" where
  "error_row_heading fstr row =
     ''**Row '' @ str_int (row_number row) @ ''**: ''
       @ py_str fstr (py_or (company_name row) (exhibitor_invite row))"

definition error_row_lines :: "(rat \<Rightarrow> string) \<Rightarrow> excel_row \<Rightarrow> string list" where
  "error_row_lines fstr row =
     [error_row_heading fstr row] @ map (\<lambda>error. ''  - '' @ error) (errors row) @ [[]]"

text \<open>
  The line appended for one valid row; \<^verbatim>\<open>row.matched_event['meeting_name']\<close> raises
  KeyError on a dict without that key.
\<close>

definition valid_row_line :: "(rat \<Rightarrow> string) \<Rightarrow> excel_row \<Rightarrow> string + string" where
  "valid_row_line fstr row =
     try_bind
       (if dict_truthy (matched_event row)
        then try_bind (dict_item (case matched_event row of Some items \<Rightarrow> items | None \<Rightarrow> [])
                         ''meeting_name'')
               (\<lambda>v. Inr (py_str fstr v))
        else Inr ''No match'')
       (\<lambda>m. Inr (''- **'' @ py_str fstr (company_name row) @ ''** '' @ arrow @ '' '' @ m))"

text \<open>A loop whose body can raise: the lines so far are lost with the first exception.\<close>

fun try_map :: "('a \<Rightarrow> string + 'b) \<Rightarrow> 'a list \<Rightarrow> string + 'b list" where
  "try_map f [] = Inr []"
| "try_map f (x # xs) = try_bind (f x) (\<lambda>y. try_bind (try_map f xs) (\<lambda>ys. Inr (y # ys)))"

text \<open>
  \<^verbatim>\<open>report_lines\<close> at the \<^verbatim>\<open>return\<close> of \<^verbatim>\<open>generate_validation_report\<close>, and
  the function itself, which joins them.
\<close>

definition report_lines :: "(rat \<Rightarrow> string) \<Rightarrow> excel_row list \<Rightarrow> string + string list" where
  "report_lines fstr rows =
     (let total_rows = length rows;
          valid_rows = filter (\<lambda>r. \<not> has_errors r) rows;
          error_rows = filter (\<lambda>r. has_errors r) rows;
          head_lines = [''# Validation Report'' @ newline,
                        ''**Total Rows**: '' @ str_int (int total_rows),
                        ''**Valid Rows**: '' @ str_int (int (length valid_rows)),
                        ''**Rows with Errors**: '' @ str_int (int (length error_rows)) @ newline];
          error_lines = (if error_rows \<noteq> []
                         then [''## Errors'' @ newline] @ concat (map (error_row_lines fstr) error_rows)
                         else [])
      in if valid_rows \<noteq> []
         then try_bind (try_map (valid_row_line fstr) (take 10 valid_rows)) (\<lambda>valid_lines.
                Inr (head_lines @ error_lines
                     @ [''## Valid Rows (Ready to Generate)'' @ newline]
                     @ valid_lines
                     @ (if length valid_rows > 10
                        then [newline @ ''... and '' @ str_int (int (length valid_rows) - 10) @ '' more'']
                        else [])))
         else Inr (head_lines @ error_lines))"

definition generate_validation_report :: "(rat \<Rightarrow> string) \<Rightarrow> excel_row list \<Rightarrow> string + string" where
  "generate_validation_report fstr rows =
     try_bind (report_lines fstr rows) (\<lambda>ls. Inr (join newline ls))"

subsection \<open>Sample data\<close>

text \<open>
  Stand-ins for the collaborators, for the executions below: a registry of one event
  matched by exact name, a roster with the default signer, a total of 5000, a payload
  constructor that accepts every payload and renderers that return fixed bytes.
\<close>

definition sample_event :: event where
  "sample_event =
     \<lparr>ev_meeting_name = ''ASCO Direct 2025'', ev_meeting_date_long = ''June 14, 2025'',
      ev_venue = ''Hilton'', ev_city_state = ''Chicago, IL'', ev_year = 2025\<rparr>"

definition sample_deps :: deps where
  "sample_deps =
     \<lparr>float_str = (\<lambda>f. ''0.0''),
      get_all_events = [sample_event],
      find_best_match = (\<lambda>text events. find (\<lambda>e. PStr (ev_meeting_name e) = text) events),
      AUTHORIZED_SIGNATORIES = [(''sarah'', \<lparr>sig_name = ''Sarah'', sig_title = ''Director''\<rparr>)],
      DEFAULT_AUDIENCE = [''Oncologists''],
      get_total_amount = (\<lambda>row. Inr 5000),
      DocumentPayload = (\<lambda>args. Inr args),
      generate_loa_documents = (\<lambda>payload key. Inr (''LOA docx'', ''LOA pdf'')),
      generate_lor_documents = (\<lambda>payload. Inr (''LOR docx'', ''LOR pdf''))\<rparr>"

text \<open>A row as \<^verbatim>\<open>_parse_row\<close> and \<^verbatim>\<open>match_events\<close> leave it, for a company name.\<close>

definition sample_row :: "string \<Rightarrow> int \<Rightarrow> excel_row" where
  "sample_row company n =
     \<lparr>exhibitor_invite = PStr company, event_name = PStr ''ASCO Direct 2025'',
      total_field = ''$5,000.00'', company_name = PStr company,
      expected_attendance = PNone, date = PNone, city = PNone, venue = PNone,
      official_address = PNone, amount = PNone, discount = PNone,
      row_number = n, errors = [],
      matched_event =
        Some [(''meeting_name'', PStr ''ASCO Direct 2025''),
              (''meeting_date_long'', PStr ''June 14, 2025''),
              (''venue'', PStr ''Hilton''),
              (''city_state'', PStr ''Chicago, IL''),
              (''event_year'', PInt 2025)]\<rparr>"

text \<open>
  Eleven rows ready to generate, for the companies \<open>Company 1\<close> to \<open>Company 11\<close> on
  the spreadsheet lines 2 to 12; and the three rows of the spec's end-to-end scenario: a
  valid row, a row with a blank total and a row whose event matched nothing.
\<close>

definition eleven_rows :: "excel_row list" where
  "eleven_rows = map (\<lambda>n. sample_row (''Company '' @ str_int (int n)) (int n + 1)) [1..<12]"

definition scenario_rows :: "excel_row list" where
  "scenario_rows =
     [sample_row ''Acme Inc'' 2,
      add_error ''Missing or invalid total'' ((sample_row ''Beta LLC'' 3)\<lparr>total_field := ''0''\<rparr>),
      add_error ''Could not match event: Unknown Meeting''
        ((sample_row ''Gamma Corp'' 4)\<lparr>event_name := PStr ''Unknown Meeting'', matched_event := None\<rparr>)]"

subsection \<open>Notions the properties use\<close>

text \<open>
  The cell of a canonical field in a raw record: the cell under the header the column map
  gives the field, \<open>PNone\<close> when the field has no column or the record no such cell.
  A cell is missing or blank when it is empty or text that is empty once stripped; it is
  a zero when it is the text \<open>0\<close>, a numeric zero or False.
\<close>

definition field_cell :: "series \<Rightarrow> (string \<times> string) list \<Rightarrow> string \<Rightarrow> pyval" where
  "field_cell row column_map field =
     (case map_of column_map field of
        None \<Rightarrow> PNone
      | Some col \<Rightarrow> (case row_get row col of [val] \<Rightarrow> val | _ \<Rightarrow> PNone))"

text \<open>
  The fields \<^verbatim>\<open>_parse_row\<close> reads, and the records on which it cannot: a header that
  the column map gives one of these fields labels more than one cell of the record.
\<close>

definition parse_fields :: "string list" where
  "parse_fields =
     [''exhibitor_invite'', ''event_name'', ''total'', ''expected_attendance'', ''date'',
      ''city'', ''venue'', ''official_address'', ''amount'', ''discount'']"

definition repeated :: "series \<Rightarrow> (string \<times> string) list \<Rightarrow> string \<Rightarrow> bool" where
  "repeated row column_map field =
     (case map_of column_map field of
        None \<Rightarrow> False
      | Some col \<Rightarrow> length (row_get row col) > 1)"

definition repeated_label :: "series \<Rightarrow> (string \<times> string) list \<Rightarrow> bool" where
  "repeated_label row column_map = list_ex (repeated row column_map) parse_fields"

text \<open>A number that is zero, or False: the cells other than text that are falsy.\<close>

definition zero_number :: "pyval \<Rightarrow> bool" where
  "zero_number v =
     (case v of
        PInt i \<Rightarrow> i = 0
      | PFloat f \<Rightarrow> f = 0
      | PBool b \<Rightarrow> \<not> b
      | _ \<Rightarrow> False)"

text \<open>What \<^verbatim>\<open>get_value\<close> makes of a single cell.\<close>

definition cell_value :: "pyval \<Rightarrow> pyval \<Rightarrow> pyval" where
  "cell_value v dflt = (case v of PNone \<Rightarrow> dflt | PStr s \<Rightarrow> PStr (strip s) | _ \<Rightarrow> v)"

definition blank :: "pyval \<Rightarrow> bool" where
  "blank v = (case v of PNone \<Rightarrow> True | PStr s \<Rightarrow> strip s = [] | _ \<Rightarrow> False)"

definition zero_cell :: "pyval \<Rightarrow> bool" where
  "zero_cell v =
     (case v of
        PNone \<Rightarrow> False
      | PStr s \<Rightarrow> strip s = ''0''
      | PInt i \<Rightarrow> i = 0
      | PFloat f \<Rightarrow> f = 0
      | PBool b \<Rightarrow> \<not> b)"

text \<open>
  A row is eligible when the loop of \<^verbatim>\<open>generate_batch_documents\<close> does not skip it,
  and successful when its try block ends without an exception.
\<close>

definition eligible :: "excel_row \<Rightarrow> bool" where
  "eligible row = (\<not> has_errors row \<and> dict_truthy (matched_event row))"

definition successful :: "deps \<Rightarrow> string \<Rightarrow> string \<Rightarrow> excel_row \<Rightarrow> bool" where
  "successful D document_type signatory_key row =
     (eligible row \<and> \<not> isl (snd (generate_row D document_type signatory_key row)))"

text \<open>
  What one row adds to the archive and to the calls, and the row as the loop leaves it.
\<close>

definition row_entries :: "deps \<Rightarrow> string \<Rightarrow> string \<Rightarrow> excel_row \<Rightarrow> (string \<times> string) list" where
  "row_entries D document_type signatory_key row =
     (if eligible row
      then (case snd (generate_row D document_type signatory_key row) of
              Inr entries \<Rightarrow> entries
            | Inl e \<Rightarrow> [])
      else [])"

definition row_calls :: "deps \<Rightarrow> string \<Rightarrow> string \<Rightarrow> excel_row \<Rightarrow> collab_call list" where
  "row_calls D document_type signatory_key row =
     (if eligible row then fst (generate_row D document_type signatory_key row) else [])"

definition row_after :: "deps \<Rightarrow> string \<Rightarrow> string \<Rightarrow> excel_row \<Rightarrow> excel_row" where
  "row_after D document_type signatory_key row =
     (if eligible row
      then (case snd (generate_row D document_type signatory_key row) of
              Inr entries \<Rightarrow> row
            | Inl e \<Rightarrow> add_error (''Generation failed: '' @ e) row)
      else row)"

section \<open>Properties\<close>

subsection \<open>Schema resolution\<close>

lemma first_match_find: "first_match vs cs = find (\<lambda>c. c \<in> set vs) cs"
  by (induction cs) auto

lemma first_match_mem: "first_match vs cs = Some h \<Longrightarrow> h \<in> set vs"
  by (induction cs) (auto split: if_splits)

lemma first_match_None: "(first_match vs cs = None) = (\<forall>c \<in> set cs. c \<notin> set vs)"
  by (induction cs) auto

lemma map_of_build_from:
  "distinct (map fst ms) \<Longrightarrow>
   map_of (foldl (\<lambda>column_map (field, variations).
              case first_match variations columns of
                None \<Rightarrow> column_map
              | Some col \<Rightarrow> AList.update field col column_map) acc ms) f =
   (case map_of ms f of
      None \<Rightarrow> map_of acc f
    | Some vs \<Rightarrow> (case first_match vs columns of None \<Rightarrow> map_of acc f | Some c \<Rightarrow> Some c))"
proof (induction ms arbitrary: acc)
  case Nil
  then show ?case by simp
next
  case (Cons m ms)
  obtain k vs where m: "m = (k, vs)" by (cases m)
  from Cons.prems have d: "distinct (map fst ms)" and nk: "k \<notin> fst ` set ms"
    by (auto simp: m)
  have nk': "map_of ms k = None" using nk by (simp add: map_of_eq_None_iff)
  show ?case
    using Cons.IH[OF d] nk'
    by (auto simp: m update_conv' split: option.splits)
qed

lemma distinct_COLUMN_MAPPINGS: "distinct (map fst COLUMN_MAPPINGS)"
  by (simp add: COLUMN_MAPPINGS_def)

lemma map_of_build_column_map:
  "map_of (build_column_map columns) field =
     (case map_of COLUMN_MAPPINGS field of
        None \<Rightarrow> None
      | Some variations \<Rightarrow> first_match variations columns)"
  unfolding build_column_map_def build_column_map_from_def
  by (simp add: map_of_build_from[OF distinct_COLUMN_MAPPINGS] split: option.splits)

lemma variant_pairs_mem:
  "map_of COLUMN_MAPPINGS f = Some vs \<Longrightarrow> h \<in> set vs \<Longrightarrow> (f, h) \<in> set variant_pairs"
  unfolding variant_pairs_def by (auto dest!: map_of_SomeD)

lemma variant_pairs_shared:
  "list_all (\<lambda>(f, h). list_all (\<lambda>(g, h').
      h = h' \<and> f \<noteq> g \<longrightarrow>
        (h = ''amount'' \<and> (f = ''total'' \<and> g = ''amount'' \<or> f = ''amount'' \<and> g = ''total'')) \<or>
        (h = ''location'' \<and> (f = ''city'' \<and> g = ''venue'' \<or> f = ''venue'' \<and> g = ''city'')))
      variant_pairs) variant_pairs"
  by code_simp

lemma shared_header_fields:
  assumes "map_of (build_column_map columns) f = Some h"
    and "map_of (build_column_map columns) g = Some h" and "f \<noteq> g"
  shows "(h = ''amount'' \<and> (f = ''total'' \<and> g = ''amount'' \<or> f = ''amount'' \<and> g = ''total'')) \<or>
         (h = ''location'' \<and> (f = ''city'' \<and> g = ''venue'' \<or> f = ''venue'' \<and> g = ''city''))"
proof -
  from assms(1) obtain vs where f: "map_of COLUMN_MAPPINGS f = Some vs" "h \<in> set vs"
    by (auto simp: map_of_build_column_map split: option.splits dest: first_match_mem)
  from assms(2) obtain ws where g: "map_of COLUMN_MAPPINGS g = Some ws" "h \<in> set ws"
    by (auto simp: map_of_build_column_map split: option.splits dest: first_match_mem)
  have 1: "(f, h) \<in> set variant_pairs" and 2: "(g, h) \<in> set variant_pairs"
    using f g by (auto intro: variant_pairs_mem)
  from variant_pairs_shared 1 2 assms(3) show ?thesis
    unfolding list_all_iff by fast
qed

text \<open>
  C7, as the code has it. Each canonical field of the synonym table is assigned the first
  header, in table-column order, that is one of its accepted variants, and no header when
  none is; each field is resolved on its own and a header is not consumed by a match.
  The same header is assigned to two different fields only when it is \<open>amount\<close> (for
  \<open>total\<close> and \<open>amount\<close>) or \<open>location\<close> (for \<open>city\<close> and \<open>venue\<close>), the two
  variants the table lists under two fields.
\<close>

theorem build_column_map_first_header:
  "map_of (build_column_map columns) field =
     (case map_of COLUMN_MAPPINGS field of
        None \<Rightarrow> None
      | Some variations \<Rightarrow> find (\<lambda>col. col \<in> set variations) columns)
   \<and> (map_of (build_column_map columns) f = Some h \<and>
        map_of (build_column_map columns) g = Some h \<and> f \<noteq> g \<longrightarrow>
        (h = ''amount'' \<and> (f = ''total'' \<and> g = ''amount'' \<or> f = ''amount'' \<and> g = ''total'')) \<or>
        (h = ''location'' \<and> (f = ''city'' \<and> g = ''venue'' \<or> f = ''venue'' \<and> g = ''city'')))"
proof (intro conjI impI)
  show "map_of (build_column_map columns) field =
     (case map_of COLUMN_MAPPINGS field of
        None \<Rightarrow> None
      | Some variations \<Rightarrow> find (\<lambda>col. col \<in> set variations) columns)"
    by (simp add: map_of_build_column_map first_match_find split: option.splits)
next
  assume a: "map_of (build_column_map columns) f = Some h \<and>
        map_of (build_column_map columns) g = Some h \<and> f \<noteq> g"
  have 1: "map_of (build_column_map columns) f = Some h" using a by (rule conjunct1)
  have 2: "map_of (build_column_map columns) g = Some h"
    using a by (rule conjunct1 [OF conjunct2])
  have 3: "f \<noteq> g" using a by (rule conjunct2 [OF conjunct2])
  show "(h = ''amount'' \<and> (f = ''total'' \<and> g = ''amount'' \<or> f = ''amount'' \<and> g = ''total'')) \<or>
        (h = ''location'' \<and> (f = ''city'' \<and> g = ''venue'' \<or> f = ''venue'' \<and> g = ''city''))"
    by (rule shared_header_fields [OF 1 2 3])
qed

theorem build_column_map_first_header_witness:
  "map_of (build_column_map [''company'', ''location'', ''event'', ''total'']) ''city'' = Some ''location''
   \<and> map_of (build_column_map [''company'', ''location'', ''event'', ''total'']) ''venue'' = Some ''location''
   \<and> ''city'' \<noteq> ''venue''
   \<and> map_of (build_column_map [''Total'', ''price'', ''total'']) ''total'' = Some ''price''"
  using build_column_map_first_header
          [of "[''company'', ''location'', ''event'', ''total'']" "''city''" "''city''"
              "''location''" "''venue''"]
        build_column_map_first_header
          [of "[''Total'', ''price'', ''total'']" "''total''" "''total''" "''price''" "''total''"]
  by (simp add: build_column_map_def build_column_map_from_def COLUMN_MAPPINGS_def)

text \<open>
  C7 as written fails: with the headers \<open>company\<close>, \<open>event\<close>, \<open>amount\<close> the one
  header \<open>amount\<close> is assigned both to \<open>total\<close> and to \<open>amount\<close>.
\<close>

theorem build_column_map_header_not_consumed:
  "map_of (build_column_map [''company'', ''event'', ''amount'']) ''total'' = Some ''amount''
   \<and> map_of (build_column_map [''company'', ''event'', ''amount'']) ''amount'' = Some ''amount''"
  by (simp add: build_column_map_def build_column_map_from_def COLUMN_MAPPINGS_def)

subsection \<open>Row normalization\<close>

lemma get_value_cases:
  "get_value row cm field dflt =
     (if repeated row cm field then Inl ambiguous_truth
      else Inr (cell_value (field_cell row cm field) dflt))"
proof (cases "map_of cm field")
  case None
  then show ?thesis by (simp add: get_value_def field_cell_def cell_value_def repeated_def)
next
  case (Some col)
  show ?thesis
  proof (cases "row_get row col")
    case Nil
    with Some show ?thesis
      by (simp add: get_value_def field_cell_def cell_value_def repeated_def)
  next
    case (Cons v vs)
    show ?thesis
    proof (cases vs)
      case Nil
      with Some Cons show ?thesis
        by (cases v) (simp_all add: get_value_def field_cell_def cell_value_def repeated_def)
    next
      case (Cons w ws)
      with Some \<open>row_get row col = v # vs\<close> show ?thesis
        by (simp add: get_value_def repeated_def)
    qed
  qed
qed

lemma parse_row_cases:
  "parse_row fstr row cm n =
     (if repeated_label row cm then Inl ambiguous_truth
      else Inr \<lparr>exhibitor_invite = cell_value (field_cell row cm ''exhibitor_invite'') (PStr []),
               event_name = cell_value (field_cell row cm ''event_name'') (PStr []),
               total_field = py_str fstr (cell_value (field_cell row cm ''total'') (PStr ''0'')),
               company_name = cell_value (field_cell row cm ''exhibitor_invite'') PNone,
               expected_attendance = cell_value (field_cell row cm ''expected_attendance'') PNone,
               date = cell_value (field_cell row cm ''date'') PNone,
               city = cell_value (field_cell row cm ''city'') PNone,
               venue = cell_value (field_cell row cm ''venue'') PNone,
               official_address = cell_value (field_cell row cm ''official_address'') PNone,
               amount = cell_value (field_cell row cm ''amount'') PNone,
               discount = cell_value (field_cell row cm ''discount'') PNone,
               row_number = n,
               errors = (if \<not> truthy (cell_value (field_cell row cm ''exhibitor_invite'') (PStr []))
                         then [''Missing company name''] else [])
                     @ (if \<not> truthy (cell_value (field_cell row cm ''event_name'') (PStr []))
                        then [''Missing event name''] else [])
                     @ (if \<not> truthy (cell_value (field_cell row cm ''total'') (PStr ''0''))
                           \<or> cell_value (field_cell row cm ''total'') (PStr ''0'') = PStr ''0''
                        then [''Missing or invalid total''] else []),
               matched_event = None\<rparr>)"
  unfolding parse_row_def get_value_cases try_bind_def repeated_label_def parse_fields_def
  by (simp add: Let_def add_error_def)

lemma falsy_iff:
  "(\<not> truthy (cell_value v (PStr []))) = (blank v \<or> zero_number v)"
  by (cases v) (auto simp: blank_def zero_number_def cell_value_def)

lemma total_error_iff:
  "(\<not> truthy (cell_value v (PStr ''0'')) \<or> cell_value v (PStr ''0'') = PStr ''0'') = (blank v \<or> zero_cell v)"
  by (cases v) (auto simp: blank_def zero_cell_def cell_value_def)

text \<open>
  C8 as written fails: in this record the company cell and the total cell are blank, and
  the headers \<open>Venue\<close> and \<open>venue\<close> followed by a space have both become \<open>venue\<close>.
  \<^verbatim>\<open>_parse_row\<close> raises and returns no row.
\<close>

theorem parse_row_raises_on_repeated_header:
  "blank (field_cell [(''company'', PStr []), (''event'', PStr ''ASCO Direct 2025''), (''total'', PNone),
                      (''venue'', PStr ''Hilton''), (''venue'', PStr ''Hyatt'')]
            (build_column_map [''company'', ''event'', ''total'', ''venue'', ''venue'']) ''exhibitor_invite'')
   \<and> blank (field_cell [(''company'', PStr []), (''event'', PStr ''ASCO Direct 2025''), (''total'', PNone),
                      (''venue'', PStr ''Hilton''), (''venue'', PStr ''Hyatt'')]
            (build_column_map [''company'', ''event'', ''total'', ''venue'', ''venue'']) ''total'')
   \<and> parse_row (\<lambda>f. [])
         [(''company'', PStr []), (''event'', PStr ''ASCO Direct 2025''), (''total'', PNone),
          (''venue'', PStr ''Hilton''), (''venue'', PStr ''Hyatt'')]
         (build_column_map [''company'', ''event'', ''total'', ''venue'', ''venue'']) 2
       = Inl ambiguous_truth"
proof -
  have cm: "build_column_map [''company'', ''event'', ''total'', ''venue'', ''venue'']
      = [(''exhibitor_invite'', ''company''), (''event_name'', ''event''), (''total'', ''total''),
         (''venue'', ''venue'')]"
    by (simp add: build_column_map_def build_column_map_from_def COLUMN_MAPPINGS_def)
  show ?thesis
    unfolding cm
    by (simp add: parse_row_def get_value_def row_get_def try_bind_def field_cell_def blank_def
          strip_def)
qed

text \<open>
  C8, as the code has it. \<^verbatim>\<open>_parse_row\<close> raises, and returns no row, exactly on the
  raw records in which a header that the column map uses labels more than one cell. On
  every other raw record it returns a row whose errors are, in this order,
  \<open>Missing company name\<close> when the company cell is missing, blank, a zero or False,
  \<open>Missing event name\<close> when the event cell is, and \<open>Missing or invalid total\<close> when
  the total cell is missing, blank, the text \<open>0\<close>, a zero or False: one message for each
  such required field and no other. Every field of the row is extracted whatever the
  other cells are: text stripped, numbers as they are, a missing cell as the default.
\<close>

theorem parse_row_collects_errors:
  "(repeated_label row column_map \<longrightarrow> parse_row fstr row column_map n = Inl ambiguous_truth)
   \<and> (\<not> repeated_label row column_map \<longrightarrow>
        (\<exists>r. parse_row fstr row column_map n = Inr r
           \<and> errors r =
               (if blank (field_cell row column_map ''exhibitor_invite'')
                   \<or> zero_number (field_cell row column_map ''exhibitor_invite'')
                then [''Missing company name''] else [])
               @ (if blank (field_cell row column_map ''event_name'')
                     \<or> zero_number (field_cell row column_map ''event_name'')
                  then [''Missing event name''] else [])
               @ (if blank (field_cell row column_map ''total'')
                     \<or> zero_cell (field_cell row column_map ''total'')
                  then [''Missing or invalid total''] else [])
           \<and> exhibitor_invite r = cell_value (field_cell row column_map ''exhibitor_invite'') (PStr [])
           \<and> event_name r = cell_value (field_cell row column_map ''event_name'') (PStr [])
           \<and> total_field r = py_str fstr (cell_value (field_cell row column_map ''total'') (PStr ''0''))
           \<and> company_name r = cell_value (field_cell row column_map ''exhibitor_invite'') PNone
           \<and> expected_attendance r = cell_value (field_cell row column_map ''expected_attendance'') PNone
           \<and> date r = cell_value (field_cell row column_map ''date'') PNone
           \<and> city r = cell_value (field_cell row column_map ''city'') PNone
           \<and> venue r = cell_value (field_cell row column_map ''venue'') PNone
           \<and> official_address r = cell_value (field_cell row column_map ''official_address'') PNone
           \<and> amount r = cell_value (field_cell row column_map ''amount'') PNone
           \<and> discount r = cell_value (field_cell row column_map ''discount'') PNone
           \<and> row_number r = n
           \<and> matched_event r = None))"
  unfolding parse_row_cases falsy_iff total_error_iff by simp

theorem parse_row_collects_errors_witness:
  "repeated_label [(''company'', PStr ''Acme''), (''total'', PInt 5000), (''total'', PNone)]
      [(''exhibitor_invite'', ''company''), (''total'', ''total'')]
   \<and> parse_row (\<lambda>f. []) [(''company'', PStr ''Acme''), (''total'', PInt 5000), (''total'', PNone)]
        [(''exhibitor_invite'', ''company''), (''total'', ''total'')] 2 = Inl ambiguous_truth
   \<and> \<not> repeated_label [(''exhibitor invite'', PStr []), (''event name'', PNone), (''total'', PStr '' '')]
          (build_column_map [''exhibitor invite'', ''event name'', ''total''])
   \<and> (\<exists>r. parse_row (\<lambda>f. []) [(''exhibitor invite'', PStr []), (''event name'', PNone), (''total'', PStr '' '')]
               (build_column_map [''exhibitor invite'', ''event name'', ''total'']) 2 = Inr r
          \<and> errors r = [''Missing company name'', ''Missing event name'', ''Missing or invalid total'']
          \<and> exhibitor_invite r = PStr [] \<and> event_name r = PStr [] \<and> total_field r = []
          \<and> official_address r = PNone \<and> row_number r = 2)"
proof -
  let ?rowA = "[(''company'', PStr ''Acme''), (''total'', PInt 5000), (''total'', PNone)]"
  let ?cmA = "[(''exhibitor_invite'', ''company''), (''total'', ''total'')]"
  let ?row = "[(''exhibitor invite'', PStr []), (''event name'', PNone), (''total'', PStr '' '')]"
  let ?cm = "build_column_map [''exhibitor invite'', ''event name'', ''total'']"
  have cm: "?cm = [(''exhibitor_invite'', ''exhibitor invite''), (''event_name'', ''event name''), (''total'', ''total'')]"
    by (simp add: build_column_map_def build_column_map_from_def COLUMN_MAPPINGS_def)
  have ra: "repeated_label ?rowA ?cmA"
    by (simp add: repeated_label_def parse_fields_def repeated_def row_get_def)
  have nr: "\<not> repeated_label ?row ?cm"
    unfolding cm by (simp add: repeated_label_def parse_fields_def repeated_def row_get_def)
  have c1: "field_cell ?row ?cm ''exhibitor_invite'' = PStr []"
    and c2: "field_cell ?row ?cm ''event_name'' = PNone"
    and c3: "field_cell ?row ?cm ''total'' = PStr '' ''"
    and c4: "field_cell ?row ?cm ''official_address'' = PNone"
    unfolding cm by (simp_all add: field_cell_def row_get_def)
  have s: "strip '' '' = []" "strip [] = []"
    by (simp_all add: strip_def is_space_def whitespace_def)
  from parse_row_collects_errors [of ?rowA ?cmA "\<lambda>f. []" 2] ra
  have a: "parse_row (\<lambda>f. []) ?rowA ?cmA 2 = Inl ambiguous_truth" by (rule conjunct1 [THEN mp])
  from parse_row_collects_errors [of ?row ?cm "\<lambda>f. []" 2] nr
  have "\<exists>r. parse_row (\<lambda>f. []) ?row ?cm 2 = Inr r
          \<and> errors r = [''Missing company name'', ''Missing event name'', ''Missing or invalid total'']
          \<and> exhibitor_invite r = PStr [] \<and> event_name r = PStr [] \<and> total_field r = []
          \<and> official_address r = PNone \<and> row_number r = 2"
    unfolding c1 c2 c3 c4 by (auto simp add: blank_def cell_value_def s)
  with ra a nr show ?thesis by (intro conjI)
qed




subsection \<open>Ingestion\<close>

lemma missing_iff:
  "map_of (build_column_map cols) field = None \<longleftrightarrow>
     (case map_of COLUMN_MAPPINGS field of None \<Rightarrow> True | Some vs \<Rightarrow> \<forall>c \<in> set cols. c \<notin> set vs)"
  by (simp add: map_of_build_column_map first_match_None split: option.splits)

text \<open>
  Characters beyond ASCII count as one: a no-break space before a header is stripped, and
  a slice keeps whole characters.
\<close>

lemma strip_no_break_space: "strip (lower ([CHR 0xC2, CHR 0xA0] @ ''Total '')) = ''total''"
  by code_simp

lemma slice_to_characters: "slice_to 2 ([CHR 0xC3, CHR 0xA9] @ ''ab'') = [CHR 0xC3, CHR 0xA9] @ ''a''"
  by code_simp

lemma normalize_columns_Inr:
  "labels \<noteq> [] \<Longrightarrow> normalize_columns labels = Inr (map (\<lambda>c. strip (lower c)) labels)"
  by (simp add: normalize_columns_def)




lemma parse_rows_outcomes:
  "parse_rows fstr cols cm (int k) rs (rows, errs) =
     (rows @ [r. (idx, Inr r) \<leftarrow> map (\<lambda>(idx, cells). (idx, parse_row fstr (zip cols cells) cm (int idx + 2))) (enumerate k rs)],
      errs @ [''Row '' @ str_int (int idx + 2) @ '': '' @ e.
                (idx, Inl e) \<leftarrow> map (\<lambda>(idx, cells). (idx, parse_row fstr (zip cols cells) cm (int idx + 2))) (enumerate k rs)])"
proof (induction rs arbitrary: k rows errs)
  case Nil
  then show ?case by simp
next
  case (Cons cells rest)
  have s: "int k + 1 = int (Suc k)" by simp
  show ?case
    by (cases "parse_row fstr (zip cols cells) cm (int k + 2)")
       (simp_all add: s Cons.IH del: of_nat_Suc)
qed

lemma parse_rows_outcomes0:
  "parse_rows fstr cols cm 0 rs ([], []) =
     ([r. (idx, Inr r) \<leftarrow> map (\<lambda>(idx, cells). (idx, parse_row fstr (zip cols cells) cm (int idx + 2))) (enumerate 0 rs)],
      [''Row '' @ str_int (int idx + 2) @ '': '' @ e.
                (idx, Inl e) \<leftarrow> map (\<lambda>(idx, cells). (idx, parse_row fstr (zip cols cells) cm (int idx + 2))) (enumerate 0 rs)])"
  using parse_rows_outcomes [of fstr cols cm 0 rs "[]" "[]"]
  by (simp only: append_Nil of_nat_0)

lemma outcomes_length:
  "length [r. (idx, Inr r) \<leftarrow> xs] + length [g idx e. (idx, Inl e) \<leftarrow> xs] = length (xs :: (nat \<times> (string + excel_row)) list)"
proof (induction xs)
  case Nil
  then show ?case by simp
next
  case (Cons x xs)
  obtain i y where x: "x = (i, y)" by (cases x)
  show ?case using Cons by (cases y) (simp_all add: x)
qed

text \<open>
  C10. \<^verbatim>\<open>parse_excel_file\<close> always returns a pair of rows and errors. When reading
  the file raises, the pair is no rows and the one error \<open>Failed to read Excel file:\<close>
  with the exception's text. When the required columns are present, each data row is
  parsed in order: a row whose parsing returns is appended to the rows, a row whose
  parsing raises gives the error \<open>Row n:\<close> with the exception's text (\<open>n\<close> is the
  index plus 2) and is left out of the rows. So rows and errors together are as many as
  the data rows, and the rows are fewer than the data rows as soon as one parsing raises.
  (The other cases, a table without columns and a missing required column, are C2.)
\<close>

theorem parse_excel_file_never_raises:
  "parse_excel_file fstr (Inl e) = ([], [''Failed to read Excel file: '' @ e])
   \<and> (let cols = map (\<lambda>c. strip (lower c)) (df_columns df);
           column_map = build_column_map cols;
           outcomes = map (\<lambda>(idx, cells). (idx, parse_row fstr (zip cols cells) column_map (int idx + 2)))
                          (enumerate 0 (df_rows df))
       in (\<forall>field \<in> set required. map_of column_map field \<noteq> None) \<longrightarrow>
          parse_excel_file fstr (Inr df) =
            ([r. (idx, Inr r) \<leftarrow> outcomes],
             [''Row '' @ str_int (int idx + 2) @ '': '' @ msg. (idx, Inl msg) \<leftarrow> outcomes])
          \<and> length (fst (parse_excel_file fstr (Inr df))) + length (snd (parse_excel_file fstr (Inr df)))
              = length (df_rows df))"
proof -
  let ?cols = "map (\<lambda>c. strip (lower c)) (df_columns df)"
  let ?cm = "build_column_map ?cols"
  let ?out = "map (\<lambda>(idx, cells). (idx, parse_row fstr (zip ?cols cells) ?cm (int idx + 2)))
                          (enumerate 0 (df_rows df))"
  have 1: "parse_excel_file fstr (Inl e) = ([], [''Failed to read Excel file: '' @ e])"
    by (simp add: parse_excel_file_def)
  have 2: "parse_excel_file fstr (Inr df) =
            ([r. (idx, Inr r) \<leftarrow> ?out],
             [''Row '' @ str_int (int idx + 2) @ '': '' @ msg. (idx, Inl msg) \<leftarrow> ?out])"
    if "\<forall>field \<in> set required. map_of ?cm field \<noteq> None"
  proof -
    from that have "filter (\<lambda>col. map_of ?cm col = None) required = []"
      by (simp add: filter_empty_conv)
    moreover have "df_columns df \<noteq> []"
    proof
      assume "df_columns df = []"
      then have "map_of ?cm ''total'' = None"
        by (simp add: missing_iff COLUMN_MAPPINGS_def)
      with that show False by (simp add: required_def)
    qed
    ultimately have "parse_excel_file fstr (Inr df) = parse_rows fstr ?cols ?cm 0 (df_rows df) ([], [])"
      by (simp add: parse_excel_file_def normalize_columns_Inr Let_def)
    then show ?thesis
      by (simp only: parse_rows_outcomes0)
  qed
  have 3: "length (fst (parse_excel_file fstr (Inr df))) + length (snd (parse_excel_file fstr (Inr df)))
              = length (df_rows df)"
    if "\<forall>field \<in> set required. map_of ?cm field \<noteq> None"
  proof -
    have l: "length ?out = length (df_rows df)" by simp
    show ?thesis
      unfolding 2 [OF that] fst_conv snd_conv
      using outcomes_length [of ?out "\<lambda>idx msg. ''Row '' @ str_int (int idx + 2) @ '': '' @ msg"]
      by (simp only: l)
  qed
  show ?thesis
    unfolding Let_def using 1 2 3 by blast
qed

theorem parse_excel_file_never_raises_witness:
  "map_of (build_column_map (map (\<lambda>c. strip (lower c)) [''Company'', ''Event'', ''Total'', ''total '']))
      ''exhibitor_invite'' = Some ''company''
   \<and> map_of (build_column_map (map (\<lambda>c. strip (lower c)) [''Company'', ''Event'', ''Total'', ''total '']))
      ''event_name'' = Some ''event''
   \<and> map_of (build_column_map (map (\<lambda>c. strip (lower c)) [''Company'', ''Event'', ''Total'', ''total '']))
      ''total'' = Some ''total''
   \<and> parse_excel_file (\<lambda>f. [])
        (Inr \<lparr>df_columns = [''Company'', ''Event'', ''Total'', ''total ''],
              df_rows = [[PStr ''Acme'', PStr ''ASCO Direct 2025'', PInt 5000, PInt 5000],
                         [PStr ''Beta'', PStr ''ASCO Direct 2025'', PInt 7500, PNone]]\<rparr>)
       = ([], [''Row 2: '' @ ambiguous_truth, ''Row 3: '' @ ambiguous_truth])
   \<and> parse_excel_file (\<lambda>f. []) (Inl ''File is not a zip file'')
       = ([], [''Failed to read Excel file: File is not a zip file''])"
proof -
  let ?df = "\<lparr>df_columns = [''Company'', ''Event'', ''Total'', ''total ''],
              df_rows = [[PStr ''Acme'', PStr ''ASCO Direct 2025'', PInt 5000, PInt 5000],
                         [PStr ''Beta'', PStr ''ASCO Direct 2025'', PInt 7500, PNone]]\<rparr>"
  have n: "map (\<lambda>c. strip (lower c)) (df_columns ?df) = [''company'', ''event'', ''total'', ''total'']"
    by (simp add: strip_def lower_def lower_char_def is_space_def whitespace_def)
  have cm: "build_column_map [''company'', ''event'', ''total'', ''total'']
      = [(''exhibitor_invite'', ''company''), (''event_name'', ''event''), (''total'', ''total'')]"
    by (simp add: build_column_map_def build_column_map_from_def COLUMN_MAPPINGS_def)
  have r: "\<forall>field \<in> set required. map_of (build_column_map (map (\<lambda>c. strip (lower c)) (df_columns ?df))) field \<noteq> None"
    unfolding n cm by (simp add: required_def)
  have d: "str_int 2 = ''2''" "str_int 3 = ''3''"
    by (simp_all add: str_int_def digits.simps)
  from parse_excel_file_never_raises [of "\<lambda>f. []" "''File is not a zip file''" ?df] r
  have "parse_excel_file (\<lambda>f. []) (Inr ?df)
       = ([], [''Row 2: '' @ ambiguous_truth, ''Row 3: '' @ ambiguous_truth])"
    unfolding Let_def n cm
    by (simp add: d parse_row_def get_value_def row_get_def try_bind_def)
  moreover from parse_excel_file_never_raises [of "\<lambda>f. []" "''File is not a zip file''" ?df]
  have "parse_excel_file (\<lambda>f. []) (Inl ''File is not a zip file'')
       = ([], [''Failed to read Excel file: File is not a zip file''])"
    by simp
  moreover have
    "map_of (build_column_map (map (\<lambda>c. strip (lower c)) [''Company'', ''Event'', ''Total'', ''total '']))
       ''exhibitor_invite'' = Some ''company''"
    "map_of (build_column_map (map (\<lambda>c. strip (lower c)) [''Company'', ''Event'', ''Total'', ''total '']))
       ''event_name'' = Some ''event''"
    "map_of (build_column_map (map (\<lambda>c. strip (lower c)) [''Company'', ''Event'', ''Total'', ''total '']))
       ''total'' = Some ''total''"
    using n unfolding cm by (simp_all add: cm)
  ultimately show ?thesis by (intro conjI)
qed

subsection \<open>Event matching\<close>

text \<open>
  C9, as the code has it. \<^verbatim>\<open>match_events\<close> keeps the rows in place. A row whose
  event text is empty gets the error \<open>No event name provided\<close>; a row with event text
  for which the matcher returns no event gets \<open>Could not match event:\<close> followed by
  the text. In both cases nothing else of the row changes, so \<open>matched_event\<close> stays
  as it was.
\<close>

theorem match_events_unmatched:
  assumes "i < length rows"
  shows "length (match_events D rows) = length rows
     \<and> (\<not> truthy (event_name (rows ! i)) \<longrightarrow>
          match_events D rows ! i
            = (rows ! i)\<lparr>errors := errors (rows ! i) @ [''No event name provided'']\<rparr>)
     \<and> (truthy (event_name (rows ! i)) \<and>
          find_best_match D (event_name (rows ! i)) (get_all_events D) = None \<longrightarrow>
          match_events D rows ! i
            = (rows ! i)\<lparr>errors := errors (rows ! i)
                 @ [''Could not match event: '' @ py_str (float_str D) (event_name (rows ! i))]\<rparr>)
     \<and> ((\<not> truthy (event_name (rows ! i)) \<or>
           find_best_match D (event_name (rows ! i)) (get_all_events D) = None) \<longrightarrow>
          matched_event (match_events D rows ! i) = matched_event (rows ! i))"
  using assms by (simp add: match_events_def match_row_def add_error_def)

theorem match_events_unmatched_witness:
  "(0::nat) < length [(sample_row ''Acme'' 2)\<lparr>event_name := PStr [], matched_event := None\<rparr>,
                 (sample_row ''Beta'' 3)\<lparr>event_name := PStr ''Unknown Meeting'', matched_event := None\<rparr>]
   \<and> errors (match_events sample_deps
        [(sample_row ''Acme'' 2)\<lparr>event_name := PStr [], matched_event := None\<rparr>,
         (sample_row ''Beta'' 3)\<lparr>event_name := PStr ''Unknown Meeting'', matched_event := None\<rparr>] ! 0)
       = [''No event name provided'']
   \<and> errors (match_events sample_deps
        [(sample_row ''Acme'' 2)\<lparr>event_name := PStr [], matched_event := None\<rparr>,
         (sample_row ''Beta'' 3)\<lparr>event_name := PStr ''Unknown Meeting'', matched_event := None\<rparr>] ! 1)
       = [''Could not match event: Unknown Meeting'']
   \<and> matched_event (match_events sample_deps
        [(sample_row ''Acme'' 2)\<lparr>event_name := PStr [], matched_event := None\<rparr>,
         (sample_row ''Beta'' 3)\<lparr>event_name := PStr ''Unknown Meeting'', matched_event := None\<rparr>] ! 1)
       = None"
  using match_events_unmatched
          [of 0 "[(sample_row ''Acme'' 2)\<lparr>event_name := PStr [], matched_event := None\<rparr>,
                  (sample_row ''Beta'' 3)\<lparr>event_name := PStr ''Unknown Meeting'', matched_event := None\<rparr>]"
              sample_deps]
        match_events_unmatched
          [of 1 "[(sample_row ''Acme'' 2)\<lparr>event_name := PStr [], matched_event := None\<rparr>,
                  (sample_row ''Beta'' 3)\<lparr>event_name := PStr ''Unknown Meeting'', matched_event := None\<rparr>]"
              sample_deps]
  by (simp add: sample_row_def sample_deps_def sample_event_def)

text \<open>
  C9 as written fails for the empty event text: the error appended is
  \<open>No event name provided\<close>, not \<open>Could not match event:\<close>.
\<close>

theorem match_events_empty_event_message:
  "errors (hd (match_events sample_deps
      [(sample_row ''Acme'' 2)\<lparr>event_name := PStr [], matched_event := None\<rparr>]))
   = [''No event name provided'']
   \<and> ''Could not match event: '' \<notin> set (errors (hd (match_events sample_deps
      [(sample_row ''Acme'' 2)\<lparr>event_name := PStr [], matched_event := None\<rparr>])))"
  by (simp add: match_events_def match_row_def add_error_def sample_row_def)

subsection \<open>Batch generation\<close>

lemma batch_row_effect:
  "batch_row D dt key st row =
     st\<lparr>zip_entries := zip_entries st @ row_entries D dt key row,
        success_count := success_count st + (if successful D dt key row then 1 else 0),
        error_count := error_count st + (if successful D dt key row then 0 else 1),
        rows_after := rows_after st @ [row_after D dt key row],
        calls := calls st @ row_calls D dt key row\<rparr>"
proof (cases "eligible row")
  case False
  then show ?thesis
    by (auto simp: batch_row_def eligible_def successful_def row_entries_def row_calls_def row_after_def)
next
  case True
  obtain cs res where g: "generate_row D dt key row = (cs, res)" by (cases "generate_row D dt key row")
  from True show ?thesis
    by (cases res)
       (simp_all add: batch_row_def eligible_def successful_def row_entries_def row_calls_def
          row_after_def g)
qed

lemma foldl_batch_row:
  "foldl (batch_row D dt key) st rows =
     st\<lparr>zip_entries := zip_entries st @ concat (map (row_entries D dt key) rows),
        success_count := success_count st + length (filter (successful D dt key) rows),
        error_count := error_count st + length (filter (\<lambda>r. \<not> successful D dt key r) rows),
        rows_after := rows_after st @ map (row_after D dt key) rows,
        calls := calls st @ concat (map (row_calls D dt key) rows)\<rparr>"
proof (induction rows arbitrary: st)
  case Nil
  then show ?case by simp
next
  case (Cons row rows)
  show ?case
  proof -
    have 1: "foldl (batch_row D dt key) st (row # rows)
          = foldl (batch_row D dt key) (batch_row D dt key st row) rows"
      by (simp only: foldl_Cons)
    show ?thesis
      unfolding 1 Cons.IH [of "batch_row D dt key st row"]
      by (simp add: batch_row_effect)
  qed
qed

lemma generate_batch_documents_effect:
  "generate_batch_documents D rows dt key =
     \<lparr>zip_entries = concat (map (row_entries D dt key) rows),
      success_count = length (filter (successful D dt key) rows),
      error_count = length (filter (\<lambda>r. \<not> successful D dt key r) rows),
      rows_after = map (row_after D dt key) rows,
      calls = concat (map (row_calls D dt key) rows)\<rparr>"
  by (simp add: generate_batch_documents_def foldl_batch_row)

lemma concat_map_filter:
  "(\<And>x. \<not> P x \<Longrightarrow> f x = []) \<Longrightarrow> concat (map f (filter P xs)) = concat (map f xs)"
  by (induction xs) auto

lemma generate_row_entries:
  "snd (generate_row D dt key row) = Inr entries \<Longrightarrow>
   \<exists>name docx pdf. base_name dt row = Inr name \<and> entries = [(name @ ''.docx'', docx), (name @ ''.pdf'', pdf)]"
  by (auto simp: generate_row_def Let_def split: sum.splits prod.splits if_splits)

lemma row_entries_successful:
  "successful D dt key row \<Longrightarrow>
   \<exists>name docx pdf. base_name dt row = Inr name
      \<and> row_entries D dt key row = [(name @ ''.docx'', docx), (name @ ''.pdf'', pdf)]"
proof -
  assume s: "successful D dt key row"
  then obtain entries where e: "snd (generate_row D dt key row) = Inr entries"
    by (cases "snd (generate_row D dt key row)") (auto simp: successful_def)
  from generate_row_entries[OF e] s e show ?thesis
    by (auto simp: row_entries_def successful_def)
qed

lemma row_entries_unsuccessful:
  "\<not> successful D dt key row \<Longrightarrow> row_entries D dt key row = []"
  by (cases "snd (generate_row D dt key row)") (auto simp: row_entries_def successful_def)

lemma row_entries_names:
  "map fst (row_entries D dt key row) =
     (if successful D dt key row
      then (case base_name dt row of Inr name \<Rightarrow> [name @ ''.docx'', name @ ''.pdf''] | Inl e \<Rightarrow> [])
      else [])"
  using row_entries_successful [of D dt key row] row_entries_unsuccessful [of D dt key row]
  by auto

lemma length_entries:
  "length (concat (map (row_entries D dt key) rows)) = 2 * length (filter (successful D dt key) rows)"
proof (induction rows)
  case Nil
  then show ?case by simp
next
  case (Cons row rows)
  then show ?case
    using row_entries_successful [of D dt key row] row_entries_unsuccessful [of D dt key row]
    by auto
qed

lemma count_split: "length (filter P xs) + length (filter (\<lambda>x. \<not> P x) xs) = length xs"
  by (induction xs) auto

lemma has_errors_not_successful: "has_errors row \<Longrightarrow> \<not> successful D dt key row"
  by (simp add: successful_def eligible_def)

lemma error_count_split:
  "length (filter (\<lambda>r. \<not> successful D dt key r) rows) =
     length (filter (\<lambda>r. \<not> successful D dt key r) (filter (\<lambda>r. \<not> has_errors r) rows))
     + length (filter has_errors rows)"
  by (induction rows) (auto simp: has_errors_not_successful)

lemma success_filter:
  "filter (successful D dt key) (filter (\<lambda>r. \<not> has_errors r) rows) = filter (successful D dt key) rows"
  by (induction rows) (auto simp: has_errors_not_successful)

text \<open>
  C1. A row whose errors list is non-empty is skipped by the loop of
  \<^verbatim>\<open>generate_batch_documents\<close>: the step only adds one to the error count and leaves
  the archive, the success count and the list of calls to the collaborators as they
  were, and the row itself unchanged. For the whole batch: the archive, the calls made to
  \<^verbatim>\<open>DocumentPayload\<close> and to the renderers and the success count are those of the
  batch with the rows with errors removed, and each such row counts once in the error
  count. (The rows of the list are taken to be distinct objects, as
  \<^verbatim>\<open>parse_excel_file\<close> makes them.)
\<close>

theorem generate_batch_documents_skips_error_rows:
  "(has_errors row \<longrightarrow>
      batch_row D document_type signatory_key st row
        = st\<lparr>error_count := error_count st + 1, rows_after := rows_after st @ [row]\<rparr>)
   \<and> zip_entries (generate_batch_documents D rows document_type signatory_key)
       = zip_entries (generate_batch_documents D (filter (\<lambda>r. \<not> has_errors r) rows) document_type signatory_key)
   \<and> calls (generate_batch_documents D rows document_type signatory_key)
       = calls (generate_batch_documents D (filter (\<lambda>r. \<not> has_errors r) rows) document_type signatory_key)
   \<and> success_count (generate_batch_documents D rows document_type signatory_key)
       = success_count (generate_batch_documents D (filter (\<lambda>r. \<not> has_errors r) rows) document_type signatory_key)
   \<and> error_count (generate_batch_documents D rows document_type signatory_key)
       = error_count (generate_batch_documents D (filter (\<lambda>r. \<not> has_errors r) rows) document_type signatory_key)
         + length (filter has_errors rows)"
proof (intro conjI impI)
  assume "has_errors row"
  then show "batch_row D document_type signatory_key st row
        = st\<lparr>error_count := error_count st + 1, rows_after := rows_after st @ [row]\<rparr>"
    by (simp add: batch_row_def)
next
  have "row_entries D document_type signatory_key r = []" if "\<not> \<not> has_errors r" for r
    using that by (simp add: row_entries_def eligible_def)
  from concat_map_filter [of "\<lambda>r. \<not> has_errors r" "row_entries D document_type signatory_key" rows, OF this]
  show "zip_entries (generate_batch_documents D rows document_type signatory_key)
       = zip_entries (generate_batch_documents D (filter (\<lambda>r. \<not> has_errors r) rows) document_type signatory_key)"
    by (simp add: generate_batch_documents_effect)
next
  have "row_calls D document_type signatory_key r = []" if "\<not> \<not> has_errors r" for r
    using that by (simp add: row_calls_def eligible_def)
  from concat_map_filter [of "\<lambda>r. \<not> has_errors r" "row_calls D document_type signatory_key" rows, OF this]
  show "calls (generate_batch_documents D rows document_type signatory_key)
       = calls (generate_batch_documents D (filter (\<lambda>r. \<not> has_errors r) rows) document_type signatory_key)"
    by (simp add: generate_batch_documents_effect)
next
  show "success_count (generate_batch_documents D rows document_type signatory_key)
       = success_count (generate_batch_documents D (filter (\<lambda>r. \<not> has_errors r) rows) document_type signatory_key)"
    unfolding generate_batch_documents_effect success_filter by simp
next
  show "error_count (generate_batch_documents D rows document_type signatory_key)
       = error_count (generate_batch_documents D (filter (\<lambda>r. \<not> has_errors r) rows) document_type signatory_key)
         + length (filter has_errors rows)"
    by (simp add: generate_batch_documents_effect error_count_split [of D document_type signatory_key rows])
qed

theorem generate_batch_documents_skips_error_rows_witness:
  "has_errors (add_error ''Missing or invalid total'' (sample_row ''Beta'' 2))
   \<and> batch_row sample_deps ''LOR'' ''sarah''
        \<lparr>zip_entries = [], success_count = 0, error_count = 0, rows_after = [], calls = []\<rparr>
        (add_error ''Missing or invalid total'' (sample_row ''Beta'' 2))
       = \<lparr>zip_entries = [], success_count = 0, error_count = 1,
          rows_after = [add_error ''Missing or invalid total'' (sample_row ''Beta'' 2)], calls = []\<rparr>
   \<and> zip_entries (generate_batch_documents sample_deps
         [add_error ''Missing or invalid total'' (sample_row ''Beta'' 2), sample_row ''Acme'' 3] ''LOR'' ''sarah'')
       = zip_entries (generate_batch_documents sample_deps [sample_row ''Acme'' 3] ''LOR'' ''sarah'')
   \<and> calls (generate_batch_documents sample_deps
         [add_error ''Missing or invalid total'' (sample_row ''Beta'' 2), sample_row ''Acme'' 3] ''LOR'' ''sarah'')
       = calls (generate_batch_documents sample_deps [sample_row ''Acme'' 3] ''LOR'' ''sarah'')
   \<and> error_count (generate_batch_documents sample_deps
         [add_error ''Missing or invalid total'' (sample_row ''Beta'' 2), sample_row ''Acme'' 3] ''LOR'' ''sarah'')
       = error_count (generate_batch_documents sample_deps [sample_row ''Acme'' 3] ''LOR'' ''sarah'') + 1"
proof -
  have e: "has_errors (add_error ''Missing or invalid total'' (sample_row ''Beta'' 2))"
    by (simp add: has_errors_def add_error_def)
  have g: "\<not> has_errors (sample_row ''Acme'' 3)"
    by (simp add: has_errors_def sample_row_def)
  have f: "filter (\<lambda>r. \<not> has_errors r)
             [add_error ''Missing or invalid total'' (sample_row ''Beta'' 2), sample_row ''Acme'' 3]
           = [sample_row ''Acme'' 3]"
    using e g by simp
  show ?thesis
    using generate_batch_documents_skips_error_rows
            [of "add_error ''Missing or invalid total'' (sample_row ''Beta'' 2)" sample_deps "''LOR''" "''sarah''"
                "\<lparr>zip_entries = [], success_count = 0, error_count = 0, rows_after = [], calls = []\<rparr>"
                "[add_error ''Missing or invalid total'' (sample_row ''Beta'' 2), sample_row ''Acme'' 3]"]
    unfolding f using e g by simp
qed

subsection \<open>Counts and the validation report\<close>

lemma names_concat:
  "map fst (concat (map (row_entries D dt key) rows)) =
     concat (map (\<lambda>r. case base_name dt r of Inr name \<Rightarrow> [name @ ''.docx'', name @ ''.pdf''] | Inl e \<Rightarrow> [])
               (filter (successful D dt key) rows))"
  by (induction rows) (simp_all add: row_entries_names)

lemma try_map_Inr:
  "try_map f xs = Inr ys \<Longrightarrow> x \<in> set xs \<Longrightarrow> f x = Inr y \<Longrightarrow> y \<in> set ys"
proof (induction xs arbitrary: ys)
  case Nil
  then show ?case by simp
next
  case (Cons a xs)
  then show ?case
    by (auto simp: try_bind_def split: sum.splits)
qed

lemma report_lines_Inr:
  assumes "report_lines fstr rs = Inr ls"
  shows "\<exists>tail. ls =
           [''# Validation Report'' @ newline,
            ''**Total Rows**: '' @ str_int (int (length rs)),
            ''**Valid Rows**: '' @ str_int (int (length (filter (\<lambda>r. \<not> has_errors r) rs))),
            ''**Rows with Errors**: '' @ str_int (int (length (filter (\<lambda>r. has_errors r) rs))) @ newline]
           @ (if filter (\<lambda>r. has_errors r) rs \<noteq> []
              then [''## Errors'' @ newline] @ concat (map (error_row_lines fstr) (filter (\<lambda>r. has_errors r) rs))
              else [])
           @ tail
         \<and> (filter (\<lambda>r. \<not> has_errors r) rs = [] \<longrightarrow> tail = [])
         \<and> (filter (\<lambda>r. \<not> has_errors r) rs \<noteq> [] \<longrightarrow>
              (\<exists>vl. try_map (valid_row_line fstr) (take 10 (filter (\<lambda>r. \<not> has_errors r) rs)) = Inr vl
                 \<and> tail = [''## Valid Rows (Ready to Generate)'' @ newline] @ vl
                     @ (if length (filter (\<lambda>r. \<not> has_errors r) rs) > 10
                        then [newline @ ''... and ''
                               @ str_int (int (length (filter (\<lambda>r. \<not> has_errors r) rs)) - 10) @ '' more'']
                        else [])))"
proof (cases "filter (\<lambda>r. \<not> has_errors r) rs = []")
  case True
  with assms show ?thesis
    unfolding report_lines_def Let_def by (intro exI [of _ "[]"]) (simp del: append.simps)
next
  case False
  show ?thesis
  proof (cases "try_map (valid_row_line fstr) (take 10 (filter (\<lambda>r. \<not> has_errors r) rs))")
    case (Inl e)
    with assms False show ?thesis
      unfolding report_lines_def Let_def by (simp add: try_bind_def)
  next
    case (Inr vl)
    with assms False show ?thesis
      unfolding report_lines_def Let_def try_bind_def
      by (intro exI [of _ "[''## Valid Rows (Ready to Generate)'' @ newline] @ vl
                     @ (if length (filter (\<lambda>r. \<not> has_errors r) rs) > 10
                        then [newline @ ''... and ''
                               @ str_int (int (length (filter (\<lambda>r. \<not> has_errors r) rs)) - 10) @ '' more'']
                        else [])"])
         (simp del: append.simps)
  qed
qed

lemma try_map_projr:
  "try_map f xs = Inr ys \<Longrightarrow> ys = map (\<lambda>x. projr (f x)) xs"
proof (induction xs arbitrary: ys)
  case Nil
  then show ?case by simp
next
  case (Cons a xs)
  then show ?case
    by (auto simp: try_bind_def split: sum.splits)
qed

lemma report_lines_exact:
  assumes "report_lines fstr rs = Inr ls"
  shows "ls =
           [''# Validation Report'' @ newline,
            ''**Total Rows**: '' @ str_int (int (length rs)),
            ''**Valid Rows**: '' @ str_int (int (length (filter (\<lambda>r. \<not> has_errors r) rs))),
            ''**Rows with Errors**: '' @ str_int (int (length (filter (\<lambda>r. has_errors r) rs))) @ newline]
           @ (if filter (\<lambda>r. has_errors r) rs \<noteq> []
              then [''## Errors'' @ newline] @ concat (map (error_row_lines fstr) (filter (\<lambda>r. has_errors r) rs))
              else [])
           @ (if filter (\<lambda>r. \<not> has_errors r) rs = [] then []
              else [''## Valid Rows (Ready to Generate)'' @ newline]
                   @ map (\<lambda>r. projr (valid_row_line fstr r)) (take 10 (filter (\<lambda>r. \<not> has_errors r) rs))
                   @ (if length (filter (\<lambda>r. \<not> has_errors r) rs) > 10
                      then [newline @ ''... and ''
                             @ str_int (int (length (filter (\<lambda>r. \<not> has_errors r) rs)) - 10) @ '' more'']
                      else []))"
proof -
  let ?valid = "filter (\<lambda>r. \<not> has_errors r) rs"
  from report_lines_Inr [OF assms] obtain tail where
    ls: "ls = [''# Validation Report'' @ newline,
            ''**Total Rows**: '' @ str_int (int (length rs)),
            ''**Valid Rows**: '' @ str_int (int (length ?valid)),
            ''**Rows with Errors**: '' @ str_int (int (length (filter (\<lambda>r. has_errors r) rs))) @ newline]
           @ (if filter (\<lambda>r. has_errors r) rs \<noteq> []
              then [''## Errors'' @ newline] @ concat (map (error_row_lines fstr) (filter (\<lambda>r. has_errors r) rs))
              else [])
           @ tail"
    and t0: "?valid = [] \<longrightarrow> tail = []"
    and t1: "?valid \<noteq> [] \<longrightarrow>
              (\<exists>vl. try_map (valid_row_line fstr) (take 10 ?valid) = Inr vl
                 \<and> tail = [''## Valid Rows (Ready to Generate)'' @ newline] @ vl
                     @ (if length ?valid > 10
                        then [newline @ ''... and '' @ str_int (int (length ?valid) - 10) @ '' more'']
                        else []))"
    by (elim exE conjE)
  show ?thesis
  proof (cases "?valid = []")
    case True
    with t0 have "tail = []" by simp
    then show ?thesis unfolding ls using True by simp
  next
    case False
    with t1 obtain vl where vl: "try_map (valid_row_line fstr) (take 10 ?valid) = Inr vl"
      and t: "tail = [''## Valid Rows (Ready to Generate)'' @ newline] @ vl
                     @ (if length ?valid > 10
                        then [newline @ ''... and '' @ str_int (int (length ?valid) - 10) @ '' more'']
                        else [])"
      by (elim impE exE conjE) simp_all
    from try_map_projr [OF vl] have v: "vl = map (\<lambda>r. projr (valid_row_line fstr r)) (take 10 ?valid)" .
    show ?thesis unfolding ls t v using False by simp
  qed
qed

lemma report_lines_contents:
  assumes "report_lines fstr rs = Inr ls"
  shows "''**Total Rows**: '' @ str_int (int (length rs)) \<in> set ls"
    and "\<And>r. r \<in> set rs \<Longrightarrow> has_errors r \<Longrightarrow> error_row_heading fstr r \<in> set ls"
    and "\<And>r e. r \<in> set rs \<Longrightarrow> has_errors r \<Longrightarrow> e \<in> set (errors r) \<Longrightarrow> ''  - '' @ e \<in> set ls"
    and "\<And>r l. r \<in> set (take 10 (filter (\<lambda>r. \<not> has_errors r) rs)) \<Longrightarrow> valid_row_line fstr r = Inr l \<Longrightarrow> l \<in> set ls"
    and "length (filter (\<lambda>r. \<not> has_errors r) rs) > 10 \<Longrightarrow>
           newline @ ''... and '' @ str_int (int (length (filter (\<lambda>r. \<not> has_errors r) rs)) - 10) @ '' more'' \<in> set ls"
proof -
  let ?valid = "filter (\<lambda>r. \<not> has_errors r) rs"
  let ?err = "filter (\<lambda>r. has_errors r) rs"
  from report_lines_Inr [OF assms] obtain tail where
    ls: "ls = [''# Validation Report'' @ newline,
            ''**Total Rows**: '' @ str_int (int (length rs)),
            ''**Valid Rows**: '' @ str_int (int (length ?valid)),
            ''**Rows with Errors**: '' @ str_int (int (length ?err)) @ newline]
           @ (if ?err \<noteq> []
              then [''## Errors'' @ newline] @ concat (map (error_row_lines fstr) ?err)
              else [])
           @ tail"
    and "?valid = [] \<longrightarrow> tail = []"
    and tail: "?valid \<noteq> [] \<longrightarrow>
              (\<exists>vl. try_map (valid_row_line fstr) (take 10 ?valid) = Inr vl
                 \<and> tail = [''## Valid Rows (Ready to Generate)'' @ newline] @ vl
                     @ (if length ?valid > 10
                        then [newline @ ''... and '' @ str_int (int (length ?valid) - 10) @ '' more'']
                        else []))"
    by (elim exE conjE)
  show "''**Total Rows**: '' @ str_int (int (length rs)) \<in> set ls"
    unfolding ls by simp
  {
    fix r assume r: "r \<in> set rs" "has_errors r"
    then have m: "r \<in> set ?err" by simp
    then have ne: "?err \<noteq> []" by (cases ?err) simp_all
    have sub: "set (error_row_lines fstr r) \<subseteq> set ls"
      unfolding ls using m ne by auto
    then show "error_row_heading fstr r \<in> set ls"
      by (simp add: error_row_lines_def)
    fix e assume "e \<in> set (errors r)"
    with sub show "''  - '' @ e \<in> set ls"
      by (auto simp: error_row_lines_def)
  }
  {
    fix r l assume r: "r \<in> set (take 10 ?valid)" and l: "valid_row_line fstr r = Inr l"
    from r have ne: "?valid \<noteq> []" by (cases ?valid) simp_all
    with tail obtain vl where vl: "try_map (valid_row_line fstr) (take 10 ?valid) = Inr vl"
      and t: "tail = [''## Valid Rows (Ready to Generate)'' @ newline] @ vl
                     @ (if length ?valid > 10
                        then [newline @ ''... and '' @ str_int (int (length ?valid) - 10) @ '' more'']
                        else [])"
      by (elim impE exE conjE) simp_all
    from try_map_Inr [OF vl r l] show "l \<in> set ls"
      unfolding ls t by simp
  }
  {
    assume g: "length ?valid > 10"
    then have ne: "?valid \<noteq> []" by (cases ?valid) simp_all
    with tail obtain vl where
      t: "tail = [''## Valid Rows (Ready to Generate)'' @ newline] @ vl
                     @ (if length ?valid > 10
                        then [newline @ ''... and '' @ str_int (int (length ?valid) - 10) @ '' more'']
                        else [])"
      by (elim impE exE conjE) simp_all
    show "newline @ ''... and '' @ str_int (int (length ?valid) - 10) @ '' more'' \<in> set ls"
      unfolding ls t using g by simp
  }
qed

text \<open>
  C3, as the code has it. Call a row successful when the loop does not skip it and its
  try block ends without an exception, and let S be the number of successful rows. The
  archive has exactly 2 S entries, for each successful row in order its \<open>.docx\<close> and its
  \<open>.pdf\<close> under the row's base name; \<open>success_count\<close> is S; \<open>success_count\<close> and
  \<open>error_count\<close> add up to the number of rows. \<^verbatim>\<open>generate_batch_documents\<close> returns
  no per-row report. The validation report of a list of rows, when it is produced, states
  the number of rows, lists every row with errors (its heading and each of its errors)
  and the first ten rows without errors; the rows without errors beyond the tenth are
  only counted, in the line \<open>... and N more\<close>. The report is exactly these lines:
  the four heading lines, the errors section when there is a row with errors, and the
  valid-rows section when there is a row without, with one line for each of the first ten
  such rows and no line for the others.
\<close>

theorem generate_batch_documents_counts:
  "length (zip_entries (generate_batch_documents D rows document_type signatory_key))
     = 2 * length (filter (successful D document_type signatory_key) rows)
   \<and> map fst (zip_entries (generate_batch_documents D rows document_type signatory_key))
     = concat (map (\<lambda>r. case base_name document_type r of
                           Inr name \<Rightarrow> [name @ ''.docx'', name @ ''.pdf'']
                         | Inl e \<Rightarrow> [])
                 (filter (successful D document_type signatory_key) rows))
   \<and> success_count (generate_batch_documents D rows document_type signatory_key)
     = length (filter (successful D document_type signatory_key) rows)
   \<and> success_count (generate_batch_documents D rows document_type signatory_key)
     + error_count (generate_batch_documents D rows document_type signatory_key) = length rows
   \<and> (report_lines fstr rs = Inr ls \<longrightarrow>
        ls = [''# Validation Report'' @ newline,
              ''**Total Rows**: '' @ str_int (int (length rs)),
              ''**Valid Rows**: '' @ str_int (int (length (filter (\<lambda>r. \<not> has_errors r) rs))),
              ''**Rows with Errors**: '' @ str_int (int (length (filter (\<lambda>r. has_errors r) rs))) @ newline]
             @ (if filter (\<lambda>r. has_errors r) rs \<noteq> []
                then [''## Errors'' @ newline] @ concat (map (error_row_lines fstr) (filter (\<lambda>r. has_errors r) rs))
                else [])
             @ (if filter (\<lambda>r. \<not> has_errors r) rs = [] then []
                else [''## Valid Rows (Ready to Generate)'' @ newline]
                     @ map (\<lambda>r. projr (valid_row_line fstr r)) (take 10 (filter (\<lambda>r. \<not> has_errors r) rs))
                     @ (if length (filter (\<lambda>r. \<not> has_errors r) rs) > 10
                        then [newline @ ''... and ''
                               @ str_int (int (length (filter (\<lambda>r. \<not> has_errors r) rs)) - 10) @ '' more'']
                        else []))
        \<and> ''**Total Rows**: '' @ str_int (int (length rs)) \<in> set ls
        \<and> (\<forall>r \<in> set rs. has_errors r \<longrightarrow>
              error_row_heading fstr r \<in> set ls \<and> (\<forall>e \<in> set (errors r). ''  - '' @ e \<in> set ls))
        \<and> (\<forall>r \<in> set (take 10 (filter (\<lambda>r. \<not> has_errors r) rs)).
              \<forall>l. valid_row_line fstr r = Inr l \<longrightarrow> l \<in> set ls)
        \<and> (length (filter (\<lambda>r. \<not> has_errors r) rs) > 10 \<longrightarrow>
              newline @ ''... and '' @ str_int (int (length (filter (\<lambda>r. \<not> has_errors r) rs)) - 10) @ '' more''
                \<in> set ls))"
proof (intro conjI impI ballI allI)
  show "length (zip_entries (generate_batch_documents D rows document_type signatory_key))
     = 2 * length (filter (successful D document_type signatory_key) rows)"
    by (simp add: generate_batch_documents_effect length_entries)
  show "map fst (zip_entries (generate_batch_documents D rows document_type signatory_key))
     = concat (map (\<lambda>r. case base_name document_type r of
                           Inr name \<Rightarrow> [name @ ''.docx'', name @ ''.pdf'']
                         | Inl e \<Rightarrow> [])
                 (filter (successful D document_type signatory_key) rows))"
    unfolding generate_batch_documents_effect by (simp only: batch.simps names_concat)
  show "success_count (generate_batch_documents D rows document_type signatory_key)
     = length (filter (successful D document_type signatory_key) rows)"
    by (simp add: generate_batch_documents_effect)
  show "success_count (generate_batch_documents D rows document_type signatory_key)
     + error_count (generate_batch_documents D rows document_type signatory_key) = length rows"
    by (simp add: generate_batch_documents_effect count_split)
next
  assume a: "report_lines fstr rs = Inr ls"
  show "ls = [''# Validation Report'' @ newline,
              ''**Total Rows**: '' @ str_int (int (length rs)),
              ''**Valid Rows**: '' @ str_int (int (length (filter (\<lambda>r. \<not> has_errors r) rs))),
              ''**Rows with Errors**: '' @ str_int (int (length (filter (\<lambda>r. has_errors r) rs))) @ newline]
             @ (if filter (\<lambda>r. has_errors r) rs \<noteq> []
                then [''## Errors'' @ newline] @ concat (map (error_row_lines fstr) (filter (\<lambda>r. has_errors r) rs))
                else [])
             @ (if filter (\<lambda>r. \<not> has_errors r) rs = [] then []
                else [''## Valid Rows (Ready to Generate)'' @ newline]
                     @ map (\<lambda>r. projr (valid_row_line fstr r)) (take 10 (filter (\<lambda>r. \<not> has_errors r) rs))
                     @ (if length (filter (\<lambda>r. \<not> has_errors r) rs) > 10
                        then [newline @ ''... and ''
                               @ str_int (int (length (filter (\<lambda>r. \<not> has_errors r) rs)) - 10) @ '' more'']
                        else []))"
    by (rule report_lines_exact [OF a])
next
  assume a: "report_lines fstr rs = Inr ls"
  show "''**Total Rows**: '' @ str_int (int (length rs)) \<in> set ls"
    by (rule report_lines_contents(1) [OF a])
next
  fix r assume a: "report_lines fstr rs = Inr ls" and r: "r \<in> set rs" "has_errors r"
  show "error_row_heading fstr r \<in> set ls"
    by (rule report_lines_contents(2) [OF a r])
next
  fix r e assume a: "report_lines fstr rs = Inr ls" and r: "r \<in> set rs" "has_errors r" "e \<in> set (errors r)"
  show "''  - '' @ e \<in> set ls"
    by (rule report_lines_contents(3) [OF a r])
next
  fix r l assume a: "report_lines fstr rs = Inr ls"
    and r: "r \<in> set (take 10 (filter (\<lambda>r. \<not> has_errors r) rs))" "valid_row_line fstr r = Inr l"
  show "l \<in> set ls"
    by (rule report_lines_contents(4) [OF a r])
next
  assume a: "report_lines fstr rs = Inr ls"
    and g: "length (filter (\<lambda>r. \<not> has_errors r) rs) > 10"
  show "newline @ ''... and '' @ str_int (int (length (filter (\<lambda>r. \<not> has_errors r) rs)) - 10) @ '' more''
                \<in> set ls"
    by (rule report_lines_contents(5) [OF a g])
qed

text \<open>
  C3 as written fails in its last part: of eleven rows without errors the report lists
  ten, and has no line for the eleventh.
\<close>

theorem report_omits_eleventh_valid_row:
  "length eleven_rows = 11
   \<and> filter has_errors eleven_rows = []
   \<and> \<not> isl (report_lines (\<lambda>f. []) eleven_rows)
   \<and> valid_row_line (\<lambda>f. []) (eleven_rows ! 10) = Inr (''- **Company 11** '' @ arrow @ '' ASCO Direct 2025'')
   \<and> ''- **Company 11** '' @ arrow @ '' ASCO Direct 2025'' \<notin> set (projr (report_lines (\<lambda>f. []) eleven_rows))"
  by code_simp

theorem generate_batch_documents_counts_witness:
  "report_lines (\<lambda>f. []) scenario_rows = Inr (projr (report_lines (\<lambda>f. []) scenario_rows))
   \<and> scenario_rows ! 1 \<in> set scenario_rows \<and> has_errors (scenario_rows ! 1)
   \<and> scenario_rows ! 0 \<in> set (take 10 (filter (\<lambda>r. \<not> has_errors r) scenario_rows))
   \<and> map row_number (filter (successful sample_deps ''LOR'' ''sarah'') scenario_rows) = [2]
   \<and> map fst (zip_entries (generate_batch_documents sample_deps scenario_rows ''LOR'' ''sarah''))
       = [''LOR_Acme_Inc_ASCO_Direct_2025.docx'', ''LOR_Acme_Inc_ASCO_Direct_2025.pdf'']
   \<and> success_count (generate_batch_documents sample_deps scenario_rows ''LOR'' ''sarah'') = 1
   \<and> error_count (generate_batch_documents sample_deps scenario_rows ''LOR'' ''sarah'') = 2
   \<and> ''**Total Rows**: 3'' \<in> set (projr (report_lines (\<lambda>f. []) scenario_rows))
   \<and> ''**Row 3**: Beta LLC'' \<in> set (projr (report_lines (\<lambda>f. []) scenario_rows))
   \<and> ''  - Missing or invalid total'' \<in> set (projr (report_lines (\<lambda>f. []) scenario_rows))
   \<and> ''- **Acme Inc** '' @ arrow @ '' ASCO Direct 2025'' \<in> set (projr (report_lines (\<lambda>f. []) scenario_rows))
   \<and> report_lines (\<lambda>f. []) eleven_rows = Inr (projr (report_lines (\<lambda>f. []) eleven_rows))
   \<and> length (filter (\<lambda>r. \<not> has_errors r) eleven_rows) > 10
   \<and> newline @ ''... and 1 more'' \<in> set (projr (report_lines (\<lambda>f. []) eleven_rows))"
proof -
  let ?ls = "projr (report_lines (\<lambda>f. []) scenario_rows)"
  let ?b = "generate_batch_documents sample_deps scenario_rows ''LOR'' ''sarah''"
  have h: "report_lines (\<lambda>f. []) scenario_rows = Inr ?ls" by code_simp
  have m1: "scenario_rows ! 1 \<in> set scenario_rows" by (simp add: scenario_rows_def)
  have e1: "has_errors (scenario_rows ! 1)" by (simp add: scenario_rows_def has_errors_def add_error_def)
  have e1': "''Missing or invalid total'' \<in> set (errors (scenario_rows ! 1))"
    by (simp add: scenario_rows_def add_error_def sample_row_def)
  have m0: "scenario_rows ! 0 \<in> set (take 10 (filter (\<lambda>r. \<not> has_errors r) scenario_rows))"
    by (simp add: scenario_rows_def has_errors_def sample_row_def)
  have s: "map row_number (filter (successful sample_deps ''LOR'' ''sarah'') scenario_rows) = [2]"
    by code_simp
  then have sl: "length (filter (successful sample_deps ''LOR'' ''sarah'') scenario_rows) = 1"
    by (metis length_map list.size(3) list.size(4) add_0 One_nat_def)
  have s0: "filter (successful sample_deps ''LOR'' ''sarah'') scenario_rows = [scenario_rows ! 0]"
    by code_simp
  have bn: "base_name ''LOR'' (scenario_rows ! 0) = Inr ''LOR_Acme_Inc_ASCO_Direct_2025''"
    by code_simp
  have hd1: "error_row_heading (\<lambda>f. []) (scenario_rows ! 1) = ''**Row 3**: Beta LLC''"
    by code_simp
  have vl: "valid_row_line (\<lambda>f. []) (scenario_rows ! 0) = Inr (''- **Acme Inc** '' @ arrow @ '' ASCO Direct 2025'')"
    by code_simp
  have n3: "str_int (int (length scenario_rows)) = ''3''"
    by code_simp
  note t = generate_batch_documents_counts
             [of sample_deps scenario_rows "''LOR''" "''sarah''" "\<lambda>f. []" scenario_rows ?ls]
  from t have c1: "map fst (zip_entries ?b)
       = [''LOR_Acme_Inc_ASCO_Direct_2025.docx'', ''LOR_Acme_Inc_ASCO_Direct_2025.pdf'']"
    unfolding s0 by (simp add: bn)
  from t sl have c2: "success_count ?b = 1" by simp
  from t c2 have c3: "error_count ?b = 2" by (simp add: scenario_rows_def)
  from t h have r: "''**Total Rows**: '' @ str_int (int (length scenario_rows)) \<in> set ?ls"
     and re: "\<forall>r \<in> set scenario_rows. has_errors r \<longrightarrow>
              error_row_heading (\<lambda>f. []) r \<in> set ?ls \<and> (\<forall>e \<in> set (errors r). ''  - '' @ e \<in> set ?ls)"
     and rv: "\<forall>r \<in> set (take 10 (filter (\<lambda>r. \<not> has_errors r) scenario_rows)).
              \<forall>l. valid_row_line (\<lambda>f. []) r = Inr l \<longrightarrow> l \<in> set ?ls"
    by blast+
  from r have c4: "''**Total Rows**: 3'' \<in> set ?ls" unfolding n3 by simp
  from re m1 e1 have "error_row_heading (\<lambda>f. []) (scenario_rows ! 1) \<in> set ?ls"
    and c6': "\<forall>e \<in> set (errors (scenario_rows ! 1)). ''  - '' @ e \<in> set ?ls"
    by blast+
  then have c5: "''**Row 3**: Beta LLC'' \<in> set ?ls" unfolding hd1 by simp
  from c6' e1' have c6: "''  - '' @ ''Missing or invalid total'' \<in> set ?ls" by (rule bspec)
  from rv m0 vl have c7: "''- **Acme Inc** '' @ arrow @ '' ASCO Direct 2025'' \<in> set ?ls" by blast
  from c6 have c6s: "''  - Missing or invalid total'' \<in> set ?ls" by simp
  have h11: "report_lines (\<lambda>f. []) eleven_rows = Inr (projr (report_lines (\<lambda>f. []) eleven_rows))"
    by code_simp
  have g11: "length (filter (\<lambda>r. \<not> has_errors r) eleven_rows) > 10" by code_simp
  have n11: "str_int (int (length (filter (\<lambda>r. \<not> has_errors r) eleven_rows)) - 10) = ''1''"
    by code_simp
  from generate_batch_documents_counts
         [of sample_deps scenario_rows "''LOR''" "''sarah''" "\<lambda>f. []" eleven_rows
             "projr (report_lines (\<lambda>f. []) eleven_rows)"] h11 g11
  have "newline @ ''... and '' @ str_int (int (length (filter (\<lambda>r. \<not> has_errors r) eleven_rows)) - 10)
          @ '' more'' \<in> set (projr (report_lines (\<lambda>f. []) eleven_rows))"
    by blast
  then have c8: "newline @ ''... and 1 more'' \<in> set (projr (report_lines (\<lambda>f. []) eleven_rows))"
    unfolding n11 by simp
  show ?thesis
    using h m1 e1 m0 s c1 c2 c3 c4 c5 c6s c7 h11 g11 c8 by (intro conjI)
qed

subsection \<open>Executions of the batch\<close>

text \<open>
  The company address of every payload the processor builds is the row's address, or the
  empty string when the row has none: the processor has no test of its own on it.
\<close>

lemma payload_args_address:
  "payload_args D document_type signatory_key row = Inr args \<Longrightarrow>
   p_company_address args = py_or (official_address row) (PStr [])"
  by (auto simp: payload_args_def try_bind_def Let_def split: sum.splits)

text \<open>
  C5 at a row with no address and the document type LOA: the arguments handed to
  \<^verbatim>\<open>DocumentPayload\<close> have the empty string as company address, no error is added
  to the row, and with collaborators that accept the payload the row is a success with
  two archive entries.
\<close>

theorem loa_payload_with_empty_address:
  "official_address (sample_row ''Acme Inc'' 2) = PNone
   \<and> eligible (sample_row ''Acme Inc'' 2)
   \<and> map_sum id p_company_address (payload_args sample_deps ''LOA'' ''sarah'' (sample_row ''Acme Inc'' 2))
       = Inr (PStr [])
   \<and> map_sum id p_document_type (payload_args sample_deps ''LOA'' ''sarah'' (sample_row ''Acme Inc'' 2))
       = Inr ''LOA''
   \<and> success_count (generate_batch_documents sample_deps [sample_row ''Acme Inc'' 2] ''LOA'' ''sarah'') = 1
   \<and> error_count (generate_batch_documents sample_deps [sample_row ''Acme Inc'' 2] ''LOA'' ''sarah'') = 0
   \<and> map errors (rows_after (generate_batch_documents sample_deps [sample_row ''Acme Inc'' 2] ''LOA'' ''sarah''))
       = [[]]
   \<and> map fst (zip_entries (generate_batch_documents sample_deps [sample_row ''Acme Inc'' 2] ''LOA'' ''sarah''))
       = [''LOA_Acme_Inc_ASCO_Direct_2025.docx'', ''LOA_Acme_Inc_ASCO_Direct_2025.pdf'']"
  by code_simp

text \<open>
  C6 at two rows with the same company and the same matched event: both rows succeed and
  the four archive entries carry two names, each twice.
\<close>

theorem archive_names_collide:
  "success_count (generate_batch_documents sample_deps
      [sample_row ''Acme Inc'' 2, sample_row ''Acme Inc'' 3] ''LOR'' ''sarah'') = 2
   \<and> map fst (zip_entries (generate_batch_documents sample_deps
      [sample_row ''Acme Inc'' 2, sample_row ''Acme Inc'' 3] ''LOR'' ''sarah''))
       = [''LOR_Acme_Inc_ASCO_Direct_2025.docx'', ''LOR_Acme_Inc_ASCO_Direct_2025.pdf'',
          ''LOR_Acme_Inc_ASCO_Direct_2025.docx'', ''LOR_Acme_Inc_ASCO_Direct_2025.pdf'']
   \<and> \<not> distinct (map fst (zip_entries (generate_batch_documents sample_deps
      [sample_row ''Acme Inc'' 2, sample_row ''Acme Inc'' 3] ''LOR'' ''sarah'')))"
  by code_simp

end
